theory Spec2Isabelle
  imports Main
begin

section \<open>JavaScript strings and values\<close>

text \<open>
  A JavaScript string is a \<^typ>\<open>string\<close> holding the bytes of its UTF-8 encoding: a
  character is one to four bytes, a literal of the source is the same literal here, and
  U+FFFD, which the platform puts where bytes do not decode, has a value. (A string
  with an unpaired surrogate has no encoding, and none here.) Values that cross the IPC
  boundary are \<open>undefined\<close>, booleans, strings and objects; an object is the list of
  its own properties in property order, so that the name of every field of a result is
  part of the model.
\<close>

datatype jsval = Undefined | JBool bool | JStr string | JObj "(string \<times> jsval) list"

text \<open>
  \<open>Buffer.prototype.toString()\<close> decodes the bytes of a buffer as UTF-8, by the
  algorithm of the Encoding Standard. The decoder keeps the bytes of the sequence it
  is in, the number of bytes that sequence still needs, and the bounds of its next
  byte. A sequence that decodes is kept as it is. A byte that cannot start a sequence
  becomes U+FFFD; so does a sequence that a byte out of bounds interrupts (that byte
  is then read again, as the start of the next sequence), and a sequence that the end
  of the buffer cuts.
\<close>

definition replacement :: string where
  "replacement = [CHR 0xEF, CHR 0xBF, CHR 0xBD]"

record decoder =
  decoded :: string
  seen :: string
  needed :: nat
  lower :: nat
  upper :: nat

definition lead_byte :: "decoder \<Rightarrow> char \<Rightarrow> decoder" where
  "lead_byte d b =
     (let n = (of_char b :: nat) in
      if n \<le> 0x7F then d\<lparr>decoded := decoded d @ [b]\<rparr>
      else if 0xC2 \<le> n \<and> n \<le> 0xDF then d\<lparr>seen := [b], needed := 1\<rparr>
      else if 0xE0 \<le> n \<and> n \<le> 0xEF
        then d\<lparr>seen := [b], needed := 2,
               lower := (if n = 0xE0 then 0xA0 else 0x80),
               upper := (if n = 0xED then 0x9F else 0xBF)\<rparr>
      else if 0xF0 \<le> n \<and> n \<le> 0xF4
        then d\<lparr>seen := [b], needed := 3,
               lower := (if n = 0xF0 then 0x90 else 0x80),
               upper := (if n = 0xF4 then 0x8F else 0xBF)\<rparr>
      else d\<lparr>decoded := decoded d @ replacement\<rparr>)"

definition decode_byte :: "decoder \<Rightarrow> char \<Rightarrow> decoder" where
  "decode_byte d b =
     (if needed d = 0 then lead_byte d b
      else if of_char b < lower d \<or> upper d < of_char b
        then lead_byte (d\<lparr>decoded := decoded d @ replacement, seen := [], needed := 0,
                           lower := 0x80, upper := 0xBF\<rparr>) b
      else if needed d = 1
        then d\<lparr>decoded := decoded d @ seen d @ [b], seen := [], needed := 0,
               lower := 0x80, upper := 0xBF\<rparr>
      else d\<lparr>seen := seen d @ [b], needed := needed d - 1, lower := 0x80, upper := 0xBF\<rparr>)"

definition decoder_start :: decoder where
  "decoder_start = \<lparr>decoded = [], seen = [], needed = 0, lower = 0x80, upper = 0xBF\<rparr>"

definition toString :: "string \<Rightarrow> string" where
  "toString bytes =
     (let d = foldl decode_byte decoder_start bytes
      in decoded d @ (if needed d = 0 then [] else replacement))"

text \<open>
  The characters of a string: a byte that is not a continuation byte starts a
  character, and the continuation bytes after it belong to it.
\<close>

definition is_continuation :: "char \<Rightarrow> bool" where
  "is_continuation b = (0x80 \<le> (of_char b :: nat) \<and> (of_char b :: nat) \<le> 0xBF)"

fun chars :: "string \<Rightarrow> string list" where
  "chars [] = []"
| "chars (b # bs) =
     (case chars bs of
        [] \<Rightarrow> [[b]]
      | c # cs \<Rightarrow> if is_continuation (hd c) then (b # c) # cs else [b] # c # cs)"

text \<open>
  \<open>String.prototype.trim\<close> removes WhiteSpace and LineTerminator characters from both
  ends: TAB, LF, VT, FF, CR, SPACE, U+00A0, U+1680, U+2000 to U+200A, U+2028, U+2029,
  U+202F, U+205F, U+3000 and U+FEFF.
\<close>

definition white_space :: "string list" where
  "white_space =
     [[CHR 0x09], [CHR 0x0A], [CHR 0x0B], [CHR 0x0C], [CHR 0x0D], [CHR 0x20],
      [CHR 0xC2, CHR 0xA0], [CHR 0xE1, CHR 0x9A, CHR 0x80],
      [CHR 0xE2, CHR 0x80, CHR 0x80], [CHR 0xE2, CHR 0x80, CHR 0x81],
      [CHR 0xE2, CHR 0x80, CHR 0x82], [CHR 0xE2, CHR 0x80, CHR 0x83],
      [CHR 0xE2, CHR 0x80, CHR 0x84], [CHR 0xE2, CHR 0x80, CHR 0x85],
      [CHR 0xE2, CHR 0x80, CHR 0x86], [CHR 0xE2, CHR 0x80, CHR 0x87],
      [CHR 0xE2, CHR 0x80, CHR 0x88], [CHR 0xE2, CHR 0x80, CHR 0x89],
      [CHR 0xE2, CHR 0x80, CHR 0x8A], [CHR 0xE2, CHR 0x80, CHR 0xA8],
      [CHR 0xE2, CHR 0x80, CHR 0xA9], [CHR 0xE2, CHR 0x80, CHR 0xAF],
      [CHR 0xE2, CHR 0x81, CHR 0x9F], [CHR 0xE3, CHR 0x80, CHR 0x80],
      [CHR 0xEF, CHR 0xBB, CHR 0xBF]]"

definition isWhiteSpace :: "string \<Rightarrow> bool" where
  "isWhiteSpace c = (c \<in> set white_space)"

definition strip :: "('a \<Rightarrow> bool) \<Rightarrow> 'a list \<Rightarrow> 'a list" where
  "strip P xs = rev (dropWhile P (rev (dropWhile P xs)))"

definition trim :: "string \<Rightarrow> string" where
  "trim s = concat (strip isWhiteSpace (chars s))"

text \<open>
  \<open>String.prototype.toUpperCase\<close> is taken from the environment, like the other
  functions of the platform (see \<open>env\<close> below); this is what it does to the letters a to
  z, which is all there is to it on ticker symbols.
\<close>

definition upper_char :: "char \<Rightarrow> char" where
  "upper_char c =
     (case map_of (zip ''abcdefghijklmnopqrstuvwxyz'' ''ABCDEFGHIJKLMNOPQRSTUVWXYZ'') c of
        Some u \<Rightarrow> u
      | None \<Rightarrow> c)"

definition ascii_upper :: "string \<Rightarrow> string" where
  "ascii_upper s = map upper_char s"

text \<open>A number inside a template literal: the decimal digits, with a sign when negative.\<close>

definition digit_char :: "nat \<Rightarrow> char" where
  "digit_char d = ''0123456789'' ! d"

fun show_nat :: "nat \<Rightarrow> string" where
  "show_nat n = (if n < 10 then [digit_char n] else show_nat (n div 10) @ [digit_char (n mod 10)])"

declare show_nat.simps [simp del]

definition show_int :: "int \<Rightarrow> string" where
  "show_int i = (if i < 0 then CHR ''-'' # show_nat (nat (- i)) else show_nat (nat i))"

text \<open>
  The exit code handed to a \<open>close\<close> listener is a number, or \<open>null\<close> when the child
  was ended by a signal; \<open>${code}\<close> prints \<open>null\<close> then.
\<close>

definition show_code :: "int option \<Rightarrow> string" where
  "show_code code = (case code of None \<Rightarrow> ''null'' | Some i \<Rightarrow> show_int i)"

section \<open>The \<open>path\<close> module (POSIX)\<close>

text \<open>
  The application is packaged for macOS, so \<open>path\<close> is \<open>path.posix\<close>. A path is cut
  at every slash; \<open>normalizeString\<close> walks the segments, skips empty ones and \<open>.\<close>, and
  lets \<open>..\<close> remove the segment before it (or keeps it, above the root of a relative
  path).
\<close>

fun split_slash :: "string \<Rightarrow> string list" where
  "split_slash [] = [[]]"
| "split_slash (c # cs) =
     (if c = CHR ''/'' then [] # split_slash cs
      else (case split_slash cs of [] \<Rightarrow> [[c]] | x # xs \<Rightarrow> (c # x) # xs))"

fun join_slash :: "string list \<Rightarrow> string" where
  "join_slash [] = []"
| "join_slash [x] = x"
| "join_slash (x # y # ys) = x @ ''/'' @ join_slash (y # ys)"

fun normalize_segs :: "bool \<Rightarrow> string list \<Rightarrow> string list \<Rightarrow> string list" where
  "normalize_segs allowAboveRoot res [] = res"
| "normalize_segs allowAboveRoot res (s # ss) =
     (if s = [] \<or> s = ''.'' then normalize_segs allowAboveRoot res ss
      else if s = ''..'' then
        (if res \<noteq> [] \<and> last res \<noteq> ''..'' then normalize_segs allowAboveRoot (butlast res) ss
         else if allowAboveRoot then normalize_segs allowAboveRoot (res @ [''..'']) ss
         else normalize_segs allowAboveRoot res ss)
      else normalize_segs allowAboveRoot (res @ [s]) ss)"

definition normalizeString :: "string \<Rightarrow> bool \<Rightarrow> string" where
  "normalizeString path allowAboveRoot =
     join_slash (normalize_segs allowAboveRoot [] (split_slash path))"

definition posix_normalize :: "string \<Rightarrow> string" where
  "posix_normalize path =
     (if path = [] then ''.''
      else
        let isAbsolute = (hd path = CHR ''/'');
            trailingSeparator = (last path = CHR ''/'');
            p = normalizeString path (\<not> isAbsolute)
        in if p = [] then (if isAbsolute then ''/'' else if trailingSeparator then ''./'' else ''.'')
           else (if isAbsolute then ''/'' else []) @ p @ (if trailingSeparator then ''/'' else []))"

definition posix_join :: "string list \<Rightarrow> string" where
  "posix_join args =
     (let parts = filter (\<lambda>a. a \<noteq> []) args
      in if parts = [] then ''.'' else posix_normalize (join_slash parts))"

text \<open>
  \<open>path.resolve\<close> prepends its arguments from the right until one is absolute, and the
  working directory when none is.
\<close>

fun resolve_loop :: "string list \<Rightarrow> string \<Rightarrow> string \<times> bool" where
  "resolve_loop [] resolvedPath = (resolvedPath, False)"
| "resolve_loop (p # ps) resolvedPath =
     (if p = [] then resolve_loop ps resolvedPath
      else if hd p = CHR ''/'' then (p @ ''/'' @ resolvedPath, True)
      else resolve_loop ps (p @ ''/'' @ resolvedPath))"

definition posix_resolve :: "string \<Rightarrow> string list \<Rightarrow> string" where
  "posix_resolve cwd args =
     (case resolve_loop (rev args @ [cwd]) [] of
        (resolvedPath, resolvedAbsolute) \<Rightarrow>
          let p = normalizeString resolvedPath (\<not> resolvedAbsolute)
          in if resolvedAbsolute then CHR ''/'' # p else if p \<noteq> [] then p else ''.'')"

text \<open>\<open>path.basename\<close>: drop the slashes at the end, keep what follows the last slash left.\<close>

definition posix_basename :: "string \<Rightarrow> string" where
  "posix_basename path =
     rev (takeWhile (\<lambda>c. c \<noteq> CHR ''/'') (dropWhile (\<lambda>c. c = CHR ''/'') (rev path)))"

section \<open>The main process: environment, child processes, files\<close>

text \<open>
  A child process is known to the main process by the events it emits, in order: data
  on either pipe (the bytes of one \<open>Buffer\<close>, cut where the pipe was read),
  \<open>error\<close> when it could not be spawned, \<open>close\<close> with the exit code (\<open>null\<close>
  after a signal). \<open>written\<close> lists the files the child itself wrote while it ran.
  What the child of an invocation does is an input of that invocation, as the answer
  of the save dialog and the reading of the clock are.
\<close>

datatype child_event = StdoutData string | StderrData string | SpawnError string | Close "int option"

record child_run =
  emitted :: "child_event list"
  written :: "(string \<times> string) list"

record spawn_call =
  command :: string
  argv :: "string list"
  spawn_cwd :: "string option"

text \<open>
  What the main process reads from its surroundings: whether it is packaged, its
  directories, and the functions of the platform. \<open>json_stringify\<close> gives the text of
  \<open>JSON.stringify(keys, null, 2)\<close>, or the message of the error raised when no text
  can be written; \<open>json_parse\<close> gives the value, or the message of the
  \<open>SyntaxError\<close>; \<open>base64_decode\<close> gives the bytes \<open>fs.writeFileSync\<close> writes for
  a base64 string.
\<close>

record env =
  isPackaged :: bool
  resourcesPath :: string
  dirname :: string
  process_cwd :: string
  userData :: string
  temp :: string
  toUpperCase :: "string \<Rightarrow> string"
  base64_decode :: "string \<Rightarrow> string"
  json_stringify :: "jsval \<Rightarrow> string + string"
  json_parse :: "string \<Rightarrow> string + jsval"

text \<open>
  The state the handlers change: the files (the bytes of each; a string is written as
  its bytes), the paths that cannot be written, and the calls made so far to
  \<open>spawn\<close>, \<open>fs.copyFileSync\<close> and \<open>shell.openPath\<close>.
\<close>

record world =
  files :: "string \<rightharpoonup> string"
  unwritable :: "string set"
  spawned :: "spawn_call list"
  copied :: "(string \<times> string) list"
  opened :: "string list"

definition quoted :: "string \<Rightarrow> string" where
  "quoted s = [CHR 0x27] @ s @ [CHR 0x27]"

definition existsSync :: "world \<Rightarrow> string \<Rightarrow> bool" where
  "existsSync w path = (files w path \<noteq> None)"

definition readFileSync :: "world \<Rightarrow> string \<Rightarrow> string + string" where
  "readFileSync w path =
     (case files w path of
        None \<Rightarrow> Inl (''ENOENT: no such file or directory, open '' @ quoted path)
      | Some data \<Rightarrow> Inr data)"

definition writeFileSync :: "world \<Rightarrow> string \<Rightarrow> string \<Rightarrow> string + world" where
  "writeFileSync w path data =
     (if path \<in> unwritable w then Inl (''EACCES: permission denied, open '' @ quoted path)
      else Inr (w\<lparr>files := (files w)(path \<mapsto> data)\<rparr>))"

text \<open>
  \<open>fs.copyFileSync\<close> opens the source first: a missing source raises before the
  destination is touched. The call is recorded whether it succeeds or not; the first
  component is the message of the error raised, if any.
\<close>

definition copyFileSync :: "world \<Rightarrow> string \<Rightarrow> string \<Rightarrow> string option \<times> world" where
  "copyFileSync w src dest =
     (let w' = w\<lparr>copied := copied w @ [(src, dest)]\<rparr>
      in case files w src of
           None \<Rightarrow>
             (Some (''ENOENT: no such file or directory, copyfile '' @ quoted src @ '' -> '' @ quoted dest), w')
         | Some data \<Rightarrow>
             if dest \<in> unwritable w
             then (Some (''EACCES: permission denied, copyfile '' @ quoted src @ '' -> '' @ quoted dest), w')
             else (None, w'\<lparr>files := (files w)(dest \<mapsto> data)\<rparr>))"

definition openPath :: "world \<Rightarrow> string \<Rightarrow> world" where
  "openPath w path = w\<lparr>opened := opened w @ [path]\<rparr>"

section \<open>The Script Invoker\<close>

text \<open>
  The promise of \<open>runPythonScript\<close> and the two strings its listeners fill. Both
  variants of the main process register the same three listeners (lines 116 to 128 and
  507 to 516): \<open>data\<close> on the two pipes and \<open>close\<close>. A \<open>data\<close> listener appends
  \<open>data.toString()\<close>: every buffer is decoded on its own. Nothing listens to
  \<open>error\<close>, so that event leaves the promise as it is. A promise settles once.
\<close>

datatype promise = Pending | Resolved string | Rejected string

record listeners =
  stdout :: string
  stderr :: string
  settled :: promise

fun on_event :: "listeners \<Rightarrow> child_event \<Rightarrow> listeners" where
  "on_event s (StdoutData d) = s\<lparr>stdout := stdout s @ toString d\<rparr>"
| "on_event s (StderrData d) = s\<lparr>stderr := stderr s @ toString d\<rparr>"
| "on_event s (SpawnError e) = s"
| "on_event s (Close code) =
     (if settled s \<noteq> Pending then s
      else if code = Some 0 then s\<lparr>settled := Resolved (trim (stdout s))\<rparr>
      else s\<lparr>settled := Rejected (if stderr s \<noteq> [] then stderr s
                                   else ''Python exited with code '' @ show_code code)\<rparr>)"

definition promise_of :: "child_event list \<Rightarrow> promise" where
  "promise_of evs = settled (foldl on_event \<lparr>stdout = [], stderr = [], settled = Pending\<rparr> evs)"

text \<open>
  The body the two copies of \<open>runPythonScript\<close> share: the call of \<open>spawn\<close> is
  recorded, the child runs and writes its files, and the promise is what the listeners
  make of its events.
\<close>

definition spawn_listening :: "child_run \<Rightarrow> world \<Rightarrow> spawn_call \<Rightarrow> promise \<times> world" where
  "spawn_listening run w call =
     (promise_of (emitted run),
      w\<lparr>spawned := spawned w @ [call],
        files := foldl (\<lambda>fs (path, data). fs(path \<mapsto> data)) (files w) (written run)\<rparr>)"

subsection \<open>First variant of the main process (\<open>part_001\<close>, lines 68 to 455)\<close>

definition projectRoot_main :: "env \<Rightarrow> string" where
  "projectRoot_main env =
     (if \<not> isPackaged env then posix_resolve (process_cwd env) [dirname env, ''..'']
      else resourcesPath env)"

definition pythonPath_main :: "env \<Rightarrow> string" where
  "pythonPath_main env =
     (if \<not> isPackaged env then posix_join [projectRoot_main env, ''.venv/bin/python3'']
      else posix_join [resourcesPath env, ''pyapp/bin/python3''])"

definition realScriptPath :: "env \<Rightarrow> string \<Rightarrow> string" where
  "realScriptPath env scriptPath =
     (if \<not> isPackaged env then scriptPath
      else posix_join [resourcesPath env, ''python/whalescope_scripts'', posix_basename scriptPath])"

definition runPythonScript_main ::
    "env \<Rightarrow> child_run \<Rightarrow> world \<Rightarrow> string \<Rightarrow> string list \<Rightarrow> promise \<times> world" where
  "runPythonScript_main env run w scriptPath args =
     spawn_listening run w \<lparr>command = pythonPath_main env,
                  argv = realScriptPath env scriptPath # args,
                  spawn_cwd = None\<rparr>"

subsection \<open>Second variant, for the packaged image (\<open>part_001\<close>, lines 456 to 687)\<close>

definition projectRoot_dmg :: "env \<Rightarrow> string" where
  "projectRoot_dmg env =
     (if \<not> isPackaged env then posix_resolve (process_cwd env) [dirname env, ''..'', ''python'']
      else posix_join [resourcesPath env, ''pyapp''])"

definition pythonPath_dmg :: "env \<Rightarrow> string" where
  "pythonPath_dmg env =
     (if \<not> isPackaged env then posix_join [projectRoot_dmg env, ''..'', ''.venv/bin/python3'']
      else posix_join [projectRoot_dmg env, ''bin/python3''])"

definition getScriptPath :: "env \<Rightarrow> string \<Rightarrow> string" where
  "getScriptPath env scriptName =
     (if \<not> isPackaged env then posix_join [projectRoot_dmg env, ''whalescope_scripts'', scriptName]
      else posix_join [projectRoot_dmg env, ''whalescope_scripts'', scriptName])"

definition runPythonScript_dmg ::
    "env \<Rightarrow> child_run \<Rightarrow> world \<Rightarrow> string \<Rightarrow> string list \<Rightarrow> promise \<times> world" where
  "runPythonScript_dmg env run w scriptName args =
     spawn_listening run w \<lparr>command = pythonPath_dmg env,
                  argv = getScriptPath env scriptName # args,
                  spawn_cwd = Some (projectRoot_dmg env)\<rparr>"

section \<open>The IPC handlers\<close>

text \<open>
  How a call of an \<open>async\<close> handler ends, seen from the renderer: its promise is
  fulfilled with a value, it is rejected with an error (the message is kept), or it
  stays pending because the handler awaits a promise that never settles.
\<close>

datatype completion = Returned jsval | Threw string | Hangs

record save_dialog =
  canceled :: bool
  filePath :: string

text \<open>
  The argument of the export handlers. Each handler takes the fields it names; the
  renderer sends strings, and \<open>chartImageBase64\<close> may be absent.
\<close>

record export_params =
  pdf_section :: string
  symbols :: string
  symbol :: string
  startDate :: string
  endDate :: string
  chartImageBase64 :: "string option"

definition apiKeysPath :: "env \<Rightarrow> string" where
  "apiKeysPath env = posix_join [userData env, ''api_keys.json'']"

text \<open>
  The name of the temporary chart image, \<open>allium_chart_${Date.now()}.png\<close>, in the
  directory \<open>app.getPath("temp")\<close>; the clock reads a natural number of milliseconds.
\<close>

definition allium_chart_path :: "env \<Rightarrow> nat \<Rightarrow> string" where
  "allium_chart_path env now =
     posix_join [temp env, ''allium_chart_'' @ show_nat now @ ''.png'']"

text \<open>\<open>chartImageBase64.replace(/^data:image\/png;base64,/, "")\<close>\<close>

definition strip_data_url :: "string \<Rightarrow> string" where
  "strip_data_url s =
     (let prefix = ''data:image/png;base64,''
      in if take (length prefix) s = prefix then drop (length prefix) s else s)"

subsection \<open>First variant (lines 68 to 455): every handler catches\<close>

definition saveApiKeys_main :: "env \<Rightarrow> world \<Rightarrow> jsval \<Rightarrow> completion \<times> world" where
  "saveApiKeys_main env w keys =
     (case json_stringify env keys of
        Inl err \<Rightarrow> (Returned (JObj [(''success'', JBool False), (''error'', JStr err)]), w)
      | Inr text \<Rightarrow>
          (case writeFileSync w (apiKeysPath env) text of
             Inl err \<Rightarrow> (Returned (JObj [(''success'', JBool False), (''error'', JStr err)]), w)
           | Inr w' \<Rightarrow> (Returned (JObj [(''success'', JBool True)]), w')))"

definition loadApiKeys_main :: "env \<Rightarrow> world \<Rightarrow> completion \<times> world" where
  "loadApiKeys_main env w =
     (if existsSync w (apiKeysPath env) then
        (case readFileSync w (apiKeysPath env) of
           Inl err \<Rightarrow> (Returned (JObj [(''success'', JBool False), (''error'', JStr err)]), w)
         | Inr text \<Rightarrow>
             (case json_parse env text of
                Inl err \<Rightarrow> (Returned (JObj [(''success'', JBool False), (''error'', JStr err)]), w)
              | Inr keys \<Rightarrow> (Returned (JObj [(''success'', JBool True), (''keys'', keys)]), w)))
      else (Returned (JObj [(''success'', JBool False), (''keys'', JObj [])]), w))"

definition marketbrain_exportCsv_main ::
    "env \<Rightarrow> child_run \<Rightarrow> save_dialog \<Rightarrow> world \<Rightarrow> export_params \<Rightarrow> completion \<times> world" where
  "marketbrain_exportCsv_main env run saveDialog w params =
     (if canceled saveDialog then (Returned (JObj [(''canceled'', JBool True)]), w)
      else
        let scriptPath =
              (if \<not> isPackaged env
               then posix_join [projectRoot_main env, ''python/whalescope_scripts/export_marketbrain_csv.py'']
               else posix_join [resourcesPath env, ''python/whalescope_scripts/export_marketbrain_csv.py''])
        in case runPythonScript_main env run w scriptPath [symbols params, startDate params, endDate params] of
             (Pending, w1) \<Rightarrow> (Hangs, w1)
           | (Rejected msg, w1) \<Rightarrow>
               (Returned (JObj [(''canceled'', JBool False), (''error'', JStr msg)]), w1)
           | (Resolved out, w1) \<Rightarrow>
               (case copyFileSync w1 (trim out) (filePath saveDialog) of
                  (Some err, w2) \<Rightarrow>
                    (Returned (JObj [(''canceled'', JBool False), (''error'', JStr err)]), w2)
                | (None, w2) \<Rightarrow>
                    (Returned (JObj [(''canceled'', JBool False), (''filePath'', JStr (filePath saveDialog))]),
                     openPath w2 (filePath saveDialog))))"

definition binance_market_exportCsv_main ::
    "env \<Rightarrow> child_run \<Rightarrow> save_dialog \<Rightarrow> world \<Rightarrow> export_params \<Rightarrow> completion \<times> world" where
  "binance_market_exportCsv_main env run saveDialog w params =
     (if canceled saveDialog then (Returned (JObj [(''canceled'', JBool True)]), w)
      else
        let scriptPath =
              (if \<not> isPackaged env
               then posix_join [projectRoot_main env, ''python/whalescope_scripts/export_binance_market_csv.py'']
               else posix_join [resourcesPath env, ''python/whalescope_scripts/export_binance_market_csv.py''])
        in case runPythonScript_main env run w scriptPath
                  [toUpperCase env (symbol params), ''--start-date'', startDate params,
                   ''--end-date'', endDate params] of
             (Pending, w1) \<Rightarrow> (Hangs, w1)
           | (Rejected msg, w1) \<Rightarrow>
               (Returned (JObj [(''canceled'', JBool False), (''error'', JStr msg)]), w1)
           | (Resolved out, w1) \<Rightarrow>
               (case copyFileSync w1 (trim out) (filePath saveDialog) of
                  (Some err, w2) \<Rightarrow>
                    (Returned (JObj [(''canceled'', JBool False), (''error'', JStr err)]), w2)
                | (None, w2) \<Rightarrow>
                    (Returned (JObj [(''canceled'', JBool False), (''filePath'', JStr (filePath saveDialog))]),
                     openPath w2 (filePath saveDialog))))"

text \<open>
  Lines 326 to 341 of \<open>exportPDF\<close>: run the script chosen for the section, copy its
  artifact to the destination, open it. The \<open>catch\<close> turns every error into a result.
\<close>

definition run_pdf_script_main ::
    "env \<Rightarrow> child_run \<Rightarrow> save_dialog \<Rightarrow> world \<Rightarrow> string \<Rightarrow> string list \<Rightarrow> completion \<times> world" where
  "run_pdf_script_main env run saveDialog w scriptPath args =
     (case runPythonScript_main env run w scriptPath args of
        (Pending, w1) \<Rightarrow> (Hangs, w1)
      | (Rejected msg, w1) \<Rightarrow>
          (Returned (JObj [(''success'', JBool False), (''error'', JStr msg)]), w1)
      | (Resolved out, w1) \<Rightarrow>
          (case copyFileSync w1 (trim out) (filePath saveDialog) of
             (Some err, w2) \<Rightarrow>
               (Returned (JObj [(''success'', JBool False), (''error'', JStr err)]), w2)
           | (None, w2) \<Rightarrow>
               (Returned (JObj [(''success'', JBool True), (''filePath'', JStr (filePath saveDialog))]),
                openPath w2 (filePath saveDialog))))"

definition exportPDF_main ::
    "env \<Rightarrow> child_run \<Rightarrow> save_dialog \<Rightarrow> nat \<Rightarrow> world \<Rightarrow> export_params \<Rightarrow> completion \<times> world" where
  "exportPDF_main env run saveDialog now w params =
     (if canceled saveDialog then (Returned (JObj [(''success'', JBool False)]), w)
      else if pdf_section params = ''allium'' then
        (let scriptPath = posix_join [projectRoot_main env, ''python/whalescope_scripts/export_pdf_allium.py'']
         in case chartImageBase64 params of
              None \<Rightarrow>
                run_pdf_script_main env run saveDialog w scriptPath
                  [toUpperCase env (symbols params), startDate params, endDate params]
            | Some chartImage \<Rightarrow>
                if chartImage = [] then
                  run_pdf_script_main env run saveDialog w scriptPath
                    [toUpperCase env (symbols params), startDate params, endDate params]
                else
                  (let chartPath = allium_chart_path env now
                   in case writeFileSync w chartPath (base64_decode env (strip_data_url chartImage)) of
                        Inl err \<Rightarrow>
                          (Returned (JObj [(''success'', JBool False), (''error'', JStr err)]), w)
                      | Inr w1 \<Rightarrow>
                          run_pdf_script_main env run saveDialog w1 scriptPath
                            ([toUpperCase env (symbols params), startDate params, endDate params]
                             @ (if chartPath \<noteq> [] then [chartPath] else []))))
      else if pdf_section params = ''binance_market'' then
        run_pdf_script_main env run saveDialog w
          (posix_join [projectRoot_main env, ''python/whalescope_scripts/export_pdf_binance_market.py''])
          [toUpperCase env (symbols params), ''--start-date'', startDate params,
           ''--end-date'', endDate params]
      else if pdf_section params = ''binance_polar'' then
        (Returned (JObj [(''success'', JBool False),
                         (''error'', JStr ''Export is disabled for Binance Polar.'')]), w)
      else
        (Returned (JObj [(''success'', JBool False),
                         (''error'', JStr (''Unknown PDF export section: '' @ pdf_section params))]), w))"

definition runPython_main :: "env \<Rightarrow> child_run \<Rightarrow> world \<Rightarrow> string \<Rightarrow> completion \<times> world" where
  "runPython_main env run w scriptPath =
     (case runPythonScript_main env run w scriptPath [] of
        (Pending, w1) \<Rightarrow> (Hangs, w1)
      | (Rejected msg, w1) \<Rightarrow>
          (Returned (JObj [(''success'', JBool False), (''error'', JStr msg)]), w1)
      | (Resolved result, w1) \<Rightarrow>
          (Returned (JObj [(''success'', JBool True), (''output'', JStr result)]), w1))"

subsection \<open>Second variant (lines 456 to 687)\<close>

definition saveApiKeys_dmg :: "env \<Rightarrow> world \<Rightarrow> jsval \<Rightarrow> completion \<times> world" where
  "saveApiKeys_dmg env w keys =
     (case json_stringify env keys of
        Inl err \<Rightarrow> (Threw err, w)
      | Inr text \<Rightarrow>
          (case writeFileSync w (apiKeysPath env) text of
             Inl err \<Rightarrow> (Threw err, w)
           | Inr w' \<Rightarrow> (Returned (JObj [(''success'', JBool True)]), w')))"

definition loadApiKeys_dmg :: "env \<Rightarrow> world \<Rightarrow> completion \<times> world" where
  "loadApiKeys_dmg env w =
     (if existsSync w (apiKeysPath env) then
        (case readFileSync w (apiKeysPath env) of
           Inl err \<Rightarrow> (Threw err, w)
         | Inr text \<Rightarrow>
             (case json_parse env text of
                Inl err \<Rightarrow> (Threw err, w)
              | Inr keys \<Rightarrow> (Returned (JObj [(''success'', JBool True), (''keys'', keys)]), w)))
      else (Returned (JObj [(''success'', JBool False), (''keys'', JObj [])]), w))"

definition marketbrain_exportCsv_dmg ::
    "env \<Rightarrow> child_run \<Rightarrow> save_dialog \<Rightarrow> world \<Rightarrow> export_params \<Rightarrow> completion \<times> world" where
  "marketbrain_exportCsv_dmg env run saveDialog w params =
     (if canceled saveDialog then (Returned (JObj [(''canceled'', JBool True)]), w)
      else
        case runPythonScript_dmg env run w ''export_marketbrain_csv.py''
               [symbols params, startDate params, endDate params] of
          (Pending, w1) \<Rightarrow> (Hangs, w1)
        | (Rejected msg, w1) \<Rightarrow>
            (Returned (JObj [(''success'', JBool False), (''error'', JStr msg)]), w1)
        | (Resolved tempCsvPath, w1) \<Rightarrow>
            (case copyFileSync w1 (trim tempCsvPath) (filePath saveDialog) of
               (Some err, w2) \<Rightarrow>
                 (Returned (JObj [(''success'', JBool False), (''error'', JStr err)]), w2)
             | (None, w2) \<Rightarrow>
                 (Returned (JObj [(''success'', JBool True), (''filePath'', JStr (filePath saveDialog))]),
                  openPath w2 (filePath saveDialog))))"

definition binance_market_exportCsv_dmg ::
    "env \<Rightarrow> child_run \<Rightarrow> save_dialog \<Rightarrow> world \<Rightarrow> export_params \<Rightarrow> completion \<times> world" where
  "binance_market_exportCsv_dmg env run saveDialog w params =
     (if canceled saveDialog then (Returned Undefined, w)
      else
        case runPythonScript_dmg env run w ''export_binance_market_csv.py''
               [toUpperCase env (symbol params), ''--start-date'', startDate params,
                ''--end-date'', endDate params] of
          (Pending, w1) \<Rightarrow> (Hangs, w1)
        | (Rejected msg, w1) \<Rightarrow> (Threw msg, w1)
        | (Resolved tempCsvPath, w1) \<Rightarrow>
            (case copyFileSync w1 tempCsvPath (filePath saveDialog) of
               (Some err, w2) \<Rightarrow> (Threw err, w2)
             | (None, w2) \<Rightarrow>
                 (Returned (JObj [(''success'', JBool True)]), openPath w2 (filePath saveDialog))))"

text \<open>Lines 652 to 656 of \<open>exportPDF\<close>; nothing catches here.\<close>

definition run_pdf_script_dmg ::
    "env \<Rightarrow> child_run \<Rightarrow> save_dialog \<Rightarrow> world \<Rightarrow> string \<Rightarrow> string list \<Rightarrow> completion \<times> world" where
  "run_pdf_script_dmg env run saveDialog w scriptName args =
     (case runPythonScript_dmg env run w scriptName args of
        (Pending, w1) \<Rightarrow> (Hangs, w1)
      | (Rejected msg, w1) \<Rightarrow> (Threw msg, w1)
      | (Resolved pdfTmpPath, w1) \<Rightarrow>
          (case copyFileSync w1 pdfTmpPath (filePath saveDialog) of
             (Some err, w2) \<Rightarrow> (Threw err, w2)
           | (None, w2) \<Rightarrow>
               (Returned (JObj [(''success'', JBool True)]), openPath w2 (filePath saveDialog))))"

definition exportPDF_dmg ::
    "env \<Rightarrow> child_run \<Rightarrow> save_dialog \<Rightarrow> nat \<Rightarrow> world \<Rightarrow> export_params \<Rightarrow> completion \<times> world" where
  "exportPDF_dmg env run saveDialog now w params =
     (if canceled saveDialog then (Returned Undefined, w)
      else if pdf_section params = ''allium'' then
        (case chartImageBase64 params of
           None \<Rightarrow>
             run_pdf_script_dmg env run saveDialog w ''export_pdf_allium.py''
               ([toUpperCase env (symbols params), startDate params, endDate params] @ [])
         | Some chartImage \<Rightarrow>
             if chartImage = [] then
               run_pdf_script_dmg env run saveDialog w ''export_pdf_allium.py''
                 ([toUpperCase env (symbols params), startDate params, endDate params] @ [])
             else
               (let chartPath = allium_chart_path env now
                in case writeFileSync w chartPath (base64_decode env (strip_data_url chartImage)) of
                     Inl err \<Rightarrow> (Threw err, w)
                   | Inr w1 \<Rightarrow>
                       run_pdf_script_dmg env run saveDialog w1 ''export_pdf_allium.py''
                         ([toUpperCase env (symbols params), startDate params, endDate params]
                          @ [chartPath])))
      else if pdf_section params = ''binance_market'' then
        run_pdf_script_dmg env run saveDialog w ''export_pdf_binance_market.py''
          [toUpperCase env (symbols params), ''--start-date'', startDate params,
           ''--end-date'', endDate params]
      else
        (Returned (JObj [(''success'', JBool False), (''error'', JStr ''Export not supported here.'')]), w))"

text \<open>
  \<open>ipcMain.handle(channel, handler)\<close>: the export handlers each variant registers, by
  channel. A handler gets the environment, what the worker it may spawn does, the
  answer of the save dialog, the value of \<open>Date.now()\<close>, the state, and the argument
  the renderer sent.
\<close>

datatype variant = Main | Dmg

type_synonym export_handler =
  "env \<Rightarrow> child_run \<Rightarrow> save_dialog \<Rightarrow> nat \<Rightarrow> world \<Rightarrow> export_params \<Rightarrow> completion \<times> world"

definition export_handlers :: "variant \<Rightarrow> (string \<times> export_handler) list" where
  "export_handlers v =
     (case v of
        Main \<Rightarrow>
          [(''marketbrain:exportCsv'', \<lambda>env run saveDialog now. marketbrain_exportCsv_main env run saveDialog),
           (''binance_market:exportCsv'', \<lambda>env run saveDialog now. binance_market_exportCsv_main env run saveDialog),
           (''exportPDF'', exportPDF_main)]
      | Dmg \<Rightarrow>
          [(''marketbrain:exportCsv'', \<lambda>env run saveDialog now. marketbrain_exportCsv_dmg env run saveDialog),
           (''binance_market:exportCsv'', \<lambda>env run saveDialog now. binance_market_exportCsv_dmg env run saveDialog),
           (''exportPDF'', exportPDF_dmg)])"

section \<open>Notions used to state the properties\<close>

text \<open>
  Whether an event is the \<open>close\<close> of the child, and what the listeners have
  accumulated from each pipe: the text of every buffer, each decoded on its own.
\<close>

definition is_close :: "child_event \<Rightarrow> bool" where
  "is_close e = (case e of Close code \<Rightarrow> True | _ \<Rightarrow> False)"

definition stdout_of :: "child_event list \<Rightarrow> string" where
  "stdout_of evs = concat (map (\<lambda>e. case e of StdoutData d \<Rightarrow> toString d | _ \<Rightarrow> []) evs)"

definition stderr_of :: "child_event list \<Rightarrow> string" where
  "stderr_of evs = concat (map (\<lambda>e. case e of StderrData d \<Rightarrow> toString d | _ \<Rightarrow> []) evs)"

text \<open>
  What the child wrote to standard output: the buffers of its \<open>data\<close> events, and the
  text of all their bytes together. A buffer holds whole characters when the decoder
  needs no further byte at its end.
\<close>

definition stdout_chunks :: "child_event list \<Rightarrow> string list" where
  "stdout_chunks evs = concat (map (\<lambda>e. case e of StdoutData d \<Rightarrow> [d] | _ \<Rightarrow> []) evs)"

definition stdout_written :: "child_event list \<Rightarrow> string" where
  "stdout_written evs = toString (concat (stdout_chunks evs))"

definition whole_characters :: "string \<Rightarrow> bool" where
  "whole_characters bytes = (needed (foldl decode_byte decoder_start bytes) = 0)"

text \<open>
  Between two sequences the decoder holds no byte of a sequence, and its bounds are
  those of a continuation byte.
\<close>

definition at_rest :: "decoder \<Rightarrow> bool" where
  "at_rest d = (needed d = 0 \<longrightarrow> seen d = [] \<and> lower d = 0x80 \<and> upper d = 0xBF)"

text \<open>
  A list of strings that is a run of the characters of one string: each is a byte with
  continuation bytes after it, and all but the first start with a byte that is not a
  continuation byte.
\<close>

fun grouped :: "string list \<Rightarrow> bool" where
  "grouped [] = True"
| "grouped (g # gs) =
     (g \<noteq> [] \<and> list_all is_continuation (tl g)
      \<and> list_all (\<lambda>h. \<not> is_continuation (hd h)) gs \<and> grouped gs)"

text \<open>
  The lines of an output: a line feed ends a line, so an output that ends with one has
  no further, empty line. The worker contract is one line.
\<close>

fun split_lines :: "string \<Rightarrow> string list" where
  "split_lines [] = [[]]"
| "split_lines (c # cs) =
     (if c = CHR 0x0A then [] # split_lines cs
      else (case split_lines cs of [] \<Rightarrow> [[c]] | x # xs \<Rightarrow> (c # x) # xs))"

definition lines_written :: "string \<Rightarrow> string list" where
  "lines_written out =
     (if out \<noteq> [] \<and> last out = CHR 0x0A then split_lines (butlast out) else split_lines out)"

definition final_line :: "string \<Rightarrow> string" where
  "final_line out = last (lines_written out)"

definition one_line :: "string \<Rightarrow> bool" where
  "one_line out = (length (lines_written out) = 1)"

text \<open>A file name proper: not empty, not \<open>.\<close> or \<open>..\<close>, and without a slash.\<close>

definition plain_name :: "string \<Rightarrow> bool" where
  "plain_name n = (n \<noteq> [] \<and> n \<noteq> ''.'' \<and> n \<noteq> ''..'' \<and> CHR ''/'' \<notin> set n)"

text \<open>The number a string of decimal digits stands for.\<close>

definition digits_value :: "string \<Rightarrow> nat" where
  "digits_value s = foldl (\<lambda>a c. 10 * a + (of_char c - 48)) 0 s"

text \<open>The directory of the worker scripts in the packaged layout of each variant.\<close>

definition scripts_dir :: "variant \<Rightarrow> env \<Rightarrow> string" where
  "scripts_dir v env =
     (case v of
        Main \<Rightarrow> posix_join [resourcesPath env, ''python/whalescope_scripts'']
      | Dmg \<Rightarrow> posix_join [projectRoot_dmg env, ''whalescope_scripts''])"

text \<open>What each export handler answers when the save dialog was cancelled.\<close>

definition cancel_value :: "variant \<Rightarrow> string \<Rightarrow> jsval" where
  "cancel_value v channel =
     (case v of
        Main \<Rightarrow> (if channel = ''exportPDF'' then JObj [(''success'', JBool False)]
                 else JObj [(''canceled'', JBool True)])
      | Dmg \<Rightarrow> (if channel = ''marketbrain:exportCsv'' then JObj [(''canceled'', JBool True)]
                else Undefined))"

text \<open>The handlers that answer a cancelled dialog with \<open>{canceled: true}\<close>.\<close>

definition answers_canceled :: "variant \<Rightarrow> string \<Rightarrow> bool" where
  "answers_canceled v channel =
     (case v of Main \<Rightarrow> channel \<noteq> ''exportPDF'' | Dmg \<Rightarrow> channel = ''marketbrain:exportCsv'')"

text \<open>
  A failed export: the promise of the worker was rejected, or it resolved with the path
  of an artifact that is not there.
\<close>

definition export_failed :: "promise \<Rightarrow> world \<Rightarrow> bool" where
  "export_failed p w =
     (case p of
        Rejected msg \<Rightarrow> True
      | Resolved out \<Rightarrow> files w (trim out) = None
      | Pending \<Rightarrow> False)"

definition is_rejected :: "promise \<Rightarrow> bool" where
  "is_rejected p = (case p of Rejected msg \<Rightarrow> True | _ \<Rightarrow> False)"

section \<open>A concrete installation\<close>

text \<open>
  A packaged installation with one credential set; \<open>sample_keys_text\<close> is what
  \<open>JSON.stringify(keys, null, 2)\<close> gives for it. The functions of its platform are
  tables over the values the examples use: the JSON text of the one key set, the bytes
  of two base64 strings. \<open>still_running\<close> is a worker that has emitted nothing so far;
  \<open>exits out err code\<close> is one that writes \<open>out\<close> and \<open>err\<close> on its pipes, a
  buffer each, and exits.
\<close>

definition sample_keys :: jsval where
  "sample_keys = JObj [(''BINANCE_API_KEY'', JStr ''k1''), (''BINANCE_API_SECRET'', JStr ''s1'')]"

definition sample_keys_text :: string where
  "sample_keys_text =
     ''{'' @ [CHR 0x0A] @ ''  '' @ [CHR 0x22] @ ''BINANCE_API_KEY'' @ [CHR 0x22] @ '': ''
       @ [CHR 0x22] @ ''k1'' @ [CHR 0x22] @ '','' @ [CHR 0x0A]
       @ ''  '' @ [CHR 0x22] @ ''BINANCE_API_SECRET'' @ [CHR 0x22] @ '': ''
       @ [CHR 0x22] @ ''s1'' @ [CHR 0x22] @ [CHR 0x0A] @ ''}''"

definition sample_env :: env where
  "sample_env =
     \<lparr>isPackaged = True,
      resourcesPath = ''/app/Resources'',
      dirname = ''/app/Resources/app/electron'',
      process_cwd = ''/'',
      userData = ''/home/u/WhaleScope'',
      temp = ''/tmp'',
      toUpperCase = ascii_upper,
      base64_decode = (\<lambda>s. if s = ''AAAA'' then [CHR 0x00, CHR 0x00, CHR 0x00]
                           else if s = ''BBBB'' then [CHR 0x04, CHR 0x10, CHR 0x41]
                           else []),
      json_stringify = (\<lambda>v. if v = sample_keys then Inr sample_keys_text
                            else Inl ''Converting circular structure to JSON''),
      json_parse = (\<lambda>t. if t = sample_keys_text then Inr sample_keys
                        else Inl ''Unexpected token'')\<rparr>"

definition sample_world :: world where
  "sample_world = \<lparr>files = Map.empty, unwritable = {}, spawned = [], copied = [], opened = []\<rparr>"

definition sample_params :: export_params where
  "sample_params =
     \<lparr>pdf_section = ''binance_polar'', symbols = ''btc'', symbol = ''btc'',
      startDate = ''2025-09-01'', endDate = ''2025-09-30'', chartImageBase64 = None\<rparr>"

definition still_running :: child_run where
  "still_running = \<lparr>emitted = [], written = []\<rparr>"

definition exits :: "string \<Rightarrow> string \<Rightarrow> int \<Rightarrow> child_run" where
  "exits out err code =
     \<lparr>emitted = [StdoutData out, StderrData err, Close (Some code)], written = []\<rparr>"

section \<open>Decoding\<close>

text \<open>
  Decoding goes on after a buffer of whole characters as if it started anew, so such
  buffers decode one by one to the text of their bytes together.
\<close>

lemma decode_byte_decoded_prefix:
  "decode_byte (d\<lparr>decoded := p @ decoded d\<rparr>) b
     = (decode_byte d b)\<lparr>decoded := p @ decoded (decode_byte d b)\<rparr>"
  by (simp add: decode_byte_def lead_byte_def Let_def)

lemma foldl_decode_byte_decoded_prefix:
  "foldl decode_byte (d\<lparr>decoded := p @ decoded d\<rparr>) bs
     = (foldl decode_byte d bs)\<lparr>decoded := p @ decoded (foldl decode_byte d bs)\<rparr>"
proof (induction bs arbitrary: d)
  case Nil
  then show ?case by simp
next
  case (Cons b bs)
  show ?case
    by (simp only: foldl_Cons decode_byte_decoded_prefix Cons.IH)
qed

lemma at_rest_decode_byte: "at_rest d \<Longrightarrow> at_rest (decode_byte d b)"
  by (auto simp: at_rest_def decode_byte_def lead_byte_def Let_def)

lemma at_rest_foldl: "at_rest d \<Longrightarrow> at_rest (foldl decode_byte d bs)"
  by (induction bs arbitrary: d) (simp_all add: at_rest_decode_byte)

lemma at_rest_start: "at_rest decoder_start"
  by (simp add: at_rest_def decoder_start_def)

lemma whole_characters_state:
  assumes "whole_characters bs"
  shows "foldl decode_byte decoder_start bs = decoder_start\<lparr>decoded := toString bs\<rparr>"
proof -
  let ?d = "foldl decode_byte decoder_start bs"
  have n: "needed ?d = 0" using assms by (simp add: whole_characters_def)
  have "at_rest ?d" using at_rest_start by (rule at_rest_foldl)
  with n have "seen ?d = []" "lower ?d = 0x80" "upper ?d = 0xBF" by (simp_all add: at_rest_def)
  with n show ?thesis by (simp add: toString_def decoder_start_def)
qed

lemma foldl_decode_byte_append_whole:
  assumes "whole_characters a"
  shows "foldl decode_byte decoder_start (a @ b)
           = (foldl decode_byte decoder_start b)
               \<lparr>decoded := toString a @ decoded (foldl decode_byte decoder_start b)\<rparr>"
proof -
  have "decoder_start\<lparr>decoded := toString a\<rparr>
          = decoder_start\<lparr>decoded := toString a @ decoded decoder_start\<rparr>"
    by (simp add: decoder_start_def)
  then show ?thesis
    by (simp only: foldl_append whole_characters_state [OF assms] foldl_decode_byte_decoded_prefix)
qed

lemma toString_append_whole:
  "whole_characters a \<Longrightarrow> toString (a @ b) = toString a @ toString b"
  by (simp add: toString_def foldl_decode_byte_append_whole Let_def del: foldl_append)

lemma whole_characters_append:
  "whole_characters a \<Longrightarrow> whole_characters b \<Longrightarrow> whole_characters (a @ b)"
  by (simp add: whole_characters_def [of "a @ b"] whole_characters_def [of b]
        foldl_decode_byte_append_whole del: foldl_append)

lemma whole_characters_Nil: "whole_characters []"
  by (simp add: whole_characters_def decoder_start_def)

lemma toString_Nil: "toString [] = []"
  by (simp add: toString_def decoder_start_def)

lemma toString_concat_whole:
  "list_all whole_characters cs \<Longrightarrow>
     whole_characters (concat cs) \<and> toString (concat cs) = concat (map toString cs)"
  by (induction cs)
     (simp_all add: whole_characters_Nil toString_Nil whole_characters_append toString_append_whole)

lemma ascii_state:
  "list_all (\<lambda>b. of_char b \<le> (0x7F::nat)) bs \<Longrightarrow> needed d = 0 \<Longrightarrow>
     foldl decode_byte d bs = d\<lparr>decoded := decoded d @ bs\<rparr>"
  by (induction bs arbitrary: d) (simp_all add: decode_byte_def lead_byte_def)

lemma toString_ascii:
  "list_all (\<lambda>b. of_char b \<le> (0x7F::nat)) bs \<Longrightarrow> toString bs = bs"
  by (simp add: toString_def ascii_state decoder_start_def)

lemma whole_characters_ascii:
  "list_all (\<lambda>b. of_char b \<le> (0x7F::nat)) bs \<Longrightarrow> whole_characters bs"
  by (simp add: whole_characters_def ascii_state decoder_start_def)

section \<open>Characters and trimming\<close>

lemma chars_Nil_iff: "chars s = [] \<longleftrightarrow> s = []"
  by (cases s) (simp_all split: list.splits)

lemma concat_chars: "concat (chars s) = s"
  by (induction s) (auto split: list.splits)

lemma hd_chars: "s \<noteq> [] \<Longrightarrow> hd (hd (chars s)) = hd s"
  by (cases s) (simp_all split: list.splits)

lemma chars_snoc:
  "\<not> is_continuation c \<Longrightarrow> chars (s @ [c]) = chars s @ [[c]]"
proof (induction s)
  case Nil
  then show ?case by simp
next
  case (Cons b bs)
  then show ?case
    by (cases "chars bs") (simp_all add: chars_Nil_iff)
qed


lemma last_dropWhile_nonempty: "dropWhile P xs \<noteq> [] \<Longrightarrow> last (dropWhile P xs) = last xs"
  by (induction xs) (auto split: if_splits)

lemma dropWhile_all: "(\<And>x. x \<in> set xs \<Longrightarrow> P x) \<Longrightarrow> dropWhile P xs = []"
  by (induction xs) auto

lemma strip_hd: "strip P xs \<noteq> [] \<Longrightarrow> \<not> P (hd (strip P xs))"
proof -
  assume ne: "strip P xs \<noteq> []"
  let ?t = "dropWhile P xs"
  let ?u = "dropWhile P (rev ?t)"
  from ne have u: "?u \<noteq> []" by (simp add: strip_def)
  have t: "?t \<noteq> []"
  proof
    assume "?t = []"
    then have "?u = []" by (simp only: rev.simps dropWhile.simps)
    with u show False ..
  qed
  have "hd (strip P xs) = last ?u" using u by (simp add: strip_def hd_rev)
  also have "\<dots> = last (rev ?t)" using u by (rule last_dropWhile_nonempty)
  also have "\<dots> = hd ?t" using t by (simp add: last_rev)
  finally show ?thesis using t hd_dropWhile [of P xs] by simp
qed

lemma strip_last: "strip P xs \<noteq> [] \<Longrightarrow> \<not> P (last (strip P xs))"
proof -
  assume ne: "strip P xs \<noteq> []"
  let ?u = "dropWhile P (rev (dropWhile P xs))"
  from ne have u: "?u \<noteq> []" by (simp add: strip_def)
  have "last (strip P xs) = hd ?u" using u by (simp add: strip_def last_rev)
  then show ?thesis using u hd_dropWhile [of P "rev (dropWhile P xs)"] by simp
qed

lemma strip_fixed:
  assumes "xs = [] \<or> (\<not> P (hd xs) \<and> \<not> P (last xs))"
  shows "strip P xs = xs"
proof (cases "xs = []")
  case True
  then show ?thesis by (simp add: strip_def)
next
  case False
  with assms have h: "\<not> P (hd xs)" and l: "\<not> P (last xs)" by auto
  have 1: "dropWhile P xs = xs"
    using False h by (cases xs) auto
  have 2: "dropWhile P (rev xs) = rev xs"
    using False l by (cases "rev xs") (auto simp: last_rev [symmetric] hd_rev)
  show ?thesis by (simp add: strip_def 1 2)
qed

lemma strip_idem: "strip P (strip P xs) = strip P xs"
  by (rule strip_fixed) (use strip_hd strip_last in blast)

lemma strip_snoc:
  assumes "P c"
  shows "strip P (xs @ [c]) = strip P xs"
proof (cases "\<forall>x \<in> set xs. P x")
  case True
  then have a: "dropWhile P (xs @ [c]) = []" and b: "dropWhile P xs = []"
    using assms by (auto intro!: dropWhile_all)
  show ?thesis unfolding strip_def a b by simp
next
  case False
  then obtain x where "x \<in> set xs" and "\<not> P x" by auto
  then have "dropWhile P (xs @ [c]) = dropWhile P xs @ [c]"
    by (rule dropWhile_append1)
  then show ?thesis using assms by (simp add: strip_def)
qed

lemma strip_infix: "\<exists>ys zs. xs = ys @ strip P xs @ zs"
proof -
  let ?t = "dropWhile P xs"
  have "?t = rev (rev ?t)" by simp
  also have "\<dots> = rev (takeWhile P (rev ?t) @ dropWhile P (rev ?t))"
    by (simp only: takeWhile_dropWhile_id)
  also have "\<dots> = strip P xs @ rev (takeWhile P (rev ?t))"
    by (simp only: rev_append strip_def)
  finally have "xs = takeWhile P xs @ strip P xs @ rev (takeWhile P (rev ?t))"
    using takeWhile_dropWhile_id [of P xs] by simp
  then show ?thesis by blast
qed

lemma grouped_chars: "grouped (chars s)"
proof (induction s)
  case Nil
  then show ?case by simp
next
  case (Cons b bs)
  show ?case
  proof (cases "chars bs")
    case Nil
    then show ?thesis by simp
  next
    case (Cons c cs)
    with Cons.IH have c: "c \<noteq> []" "list_all is_continuation (tl c)" by simp_all
    then have "list_all is_continuation c \<longleftrightarrow> is_continuation (hd c)" by (cases c) auto
    then show ?thesis using Cons.IH Cons by auto
  qed
qed

lemma grouped_append: "grouped (xs @ ys) \<Longrightarrow> grouped xs \<and> grouped ys"
  by (induction xs) auto

lemma chars_cont:
  assumes "list_all is_continuation t"
      and "gs = [] \<or> \<not> is_continuation (hd (hd gs))"
      and "\<forall>g \<in> set gs. g \<noteq> []"
  shows "chars (b # t @ concat gs) = (b # t) # chars (concat gs)"
  using assms(1)
proof (induction t arbitrary: b)
  case Nil
  show ?case
  proof (cases "chars (concat gs)")
    case Nil
    then show ?thesis by simp
  next
    case (Cons c cs)
    then have ne: "concat gs \<noteq> []" by (auto simp: chars_Nil_iff [symmetric])
    then obtain g gs' where gs: "gs = g # gs'" by (cases gs) auto
    with assms have g: "g \<noteq> []" and nc: "\<not> is_continuation (hd g)" by auto
    have "hd c = hd (concat gs)" using hd_chars [OF ne] Cons by simp
    also have "\<dots> = hd g" using g by (simp add: gs)
    finally show ?thesis using nc Cons by simp
  qed
next
  case (Cons c t)
  then show ?case by simp
qed

lemma chars_concat: "grouped gs \<Longrightarrow> chars (concat gs) = gs"
proof (induction gs)
  case Nil
  then show ?case by simp
next
  case (Cons g gs)
  then obtain b t where g: "g = b # t" by (cases g) auto
  from Cons.prems have gr: "grouped gs" by simp
  have ne: "\<forall>h \<in> set gs. h \<noteq> []" using gr by (induction gs) auto
  have hd: "gs = [] \<or> \<not> is_continuation (hd (hd gs))"
    using Cons.prems by (cases gs) auto
  have t: "list_all is_continuation t" using Cons.prems g by simp
  show ?case
    using chars_cont [OF t hd ne] Cons.IH [OF gr] by (simp add: g)
qed

lemma chars_trim: "chars (trim s) = strip isWhiteSpace (chars s)"
proof -
  obtain ys zs where "chars s = ys @ strip isWhiteSpace (chars s) @ zs"
    using strip_infix by blast
  then have "grouped (ys @ strip isWhiteSpace (chars s) @ zs)"
    using grouped_chars [of s] by simp
  then have "grouped (strip isWhiteSpace (chars s))"
    using grouped_append by blast
  then show ?thesis by (simp add: trim_def chars_concat)
qed

lemma trim_idem: "trim (trim s) = trim s"
proof -
  have "trim (trim s) = concat (strip isWhiteSpace (chars (trim s)))" by (simp only: trim_def)
  also have "\<dots> = concat (strip isWhiteSpace (chars s))" by (simp only: chars_trim strip_idem)
  also have "\<dots> = trim s" by (simp only: trim_def)
  finally show ?thesis .
qed

lemma trim_hd: "trim s \<noteq> [] \<Longrightarrow> \<not> isWhiteSpace (hd (chars (trim s)))"
  using strip_hd [of isWhiteSpace "chars s"] by (simp add: chars_trim chars_Nil_iff [symmetric])

lemma trim_last: "trim s \<noteq> [] \<Longrightarrow> \<not> isWhiteSpace (last (chars (trim s)))"
  using strip_last [of isWhiteSpace "chars s"] by (simp add: chars_trim chars_Nil_iff [symmetric])

lemma trim_line_feed: "trim (s @ [CHR 0x0A]) = trim s"
proof -
  have "chars (s @ [CHR 0x0A]) = chars s @ [[CHR 0x0A]]"
    by (rule chars_snoc) (simp add: is_continuation_def)
  moreover have "isWhiteSpace [CHR 0x0A]" by (simp add: isWhiteSpace_def white_space_def)
  ultimately show ?thesis
    using strip_snoc [of isWhiteSpace "[CHR 0x0A]" "chars s"] by (simp add: trim_def)
qed


text \<open>What it takes to decode or trim a given string by rewriting.\<close>

lemmas decode_defs = toString_def decode_byte_def lead_byte_def decoder_start_def replacement_def

lemmas trim_defs = trim_def strip_def isWhiteSpace_def white_space_def is_continuation_def

section \<open>Lines\<close>

lemma split_lines_not_Nil: "split_lines s \<noteq> []"
  by (induction s) (auto split: list.splits)

lemma split_lines_single: "split_lines s = [l] \<Longrightarrow> l = s"
proof (induction s arbitrary: l)
  case Nil
  then show ?case by simp
next
  case (Cons c cs)
  then show ?case
    by (auto simp: split_lines_not_Nil split: if_splits list.splits)
qed

lemma one_line_trim:
  assumes "one_line out"
  shows "trim out = trim (final_line out)"
proof (cases "out \<noteq> [] \<and> last out = CHR 0x0A")
  case True
  then have lw: "lines_written out = split_lines (butlast out)" by (simp add: lines_written_def)
  with assms obtain l where l: "split_lines (butlast out) = [l]"
    by (auto simp: one_line_def length_Suc_conv)
  then have "l = butlast out" by (rule split_lines_single)
  then have fl: "final_line out = butlast out" by (simp add: final_line_def lw l)
  have "out = butlast out @ [CHR 0x0A]" using True by (metis append_butlast_last_id)
  then have "trim out = trim (butlast out)"
    using trim_line_feed [of "butlast out"] by simp
  then show ?thesis by (simp add: fl)
next
  case False
  then have lw: "lines_written out = split_lines out" by (auto simp: lines_written_def)
  with assms obtain l where l: "split_lines out = [l]"
    by (auto simp: one_line_def length_Suc_conv)
  then have "l = out" by (rule split_lines_single)
  then show ?thesis by (simp add: final_line_def lw l)
qed

section \<open>Properties of the Script Invoker\<close>

lemma foldl_on_event_no_close:
  "list_all (\<lambda>e. \<not> is_close e) evs \<Longrightarrow>
   foldl on_event s evs = s\<lparr>stdout := stdout s @ stdout_of evs, stderr := stderr s @ stderr_of evs\<rparr>"
proof (induction evs arbitrary: s)
  case Nil
  then show ?case by (simp add: stdout_of_def stderr_of_def)
next
  case (Cons e evs)
  then show ?case
    by (cases e) (simp_all add: stdout_of_def stderr_of_def is_close_def)
qed

lemma foldl_on_event_settled:
  "settled s \<noteq> Pending \<Longrightarrow> settled (foldl on_event s evs) = settled s"
proof (induction evs arbitrary: s)
  case Nil
  then show ?case by simp
next
  case (Cons e evs)
  then show ?case by (cases e) simp_all
qed

lemma promise_of_no_close:
  "list_all (\<lambda>e. \<not> is_close e) evs \<Longrightarrow> promise_of evs = Pending"
  by (simp add: promise_of_def foldl_on_event_no_close)

lemma promise_of_close:
  assumes "list_all (\<lambda>e. \<not> is_close e) pre"
  shows "promise_of (pre @ Close code # rest) =
           (if code = Some 0 then Resolved (trim (stdout_of pre))
            else Rejected (if stderr_of pre \<noteq> [] then stderr_of pre
                           else ''Python exited with code '' @ show_code code))"
proof -
  let ?s0 = "\<lparr>stdout = [], stderr = [], settled = Pending\<rparr>"
  have pre: "foldl on_event ?s0 pre = \<lparr>stdout = stdout_of pre, stderr = stderr_of pre, settled = Pending\<rparr>"
    using assms by (simp add: foldl_on_event_no_close)
  have "settled (on_event (foldl on_event ?s0 pre) (Close code)) \<noteq> Pending"
    by (simp add: pre)
  then have "settled (foldl on_event (on_event (foldl on_event ?s0 pre) (Close code)) rest)
           = settled (on_event (foldl on_event ?s0 pre) (Close code))"
    by (rule foldl_on_event_settled)
  then show ?thesis
    by (simp add: promise_of_def pre)
qed

lemma fst_runPythonScript_main:
  "fst (runPythonScript_main env run w scriptPath args) = promise_of (emitted run)"
  by (simp add: runPythonScript_main_def spawn_listening_def)

lemma fst_runPythonScript_dmg:
  "fst (runPythonScript_dmg env run w scriptName args) = promise_of (emitted run)"
  by (simp add: runPythonScript_dmg_def spawn_listening_def)

text \<open>
  C1. When the child closes with code 0, the promise of \<open>runPythonScript\<close> resolves with
  the accumulated standard output, trimmed; when it closes with any other code (or with
  none, after a signal), the promise is rejected with the accumulated standard error,
  or, if that is empty, with \<open>Python exited with code N\<close>; the message of a rejection is
  never empty. Both variants of the function behave so.
\<close>

theorem runPythonScript_settles_by_exit_code:
  assumes "emitted run = pre @ Close code # rest"
      and "list_all (\<lambda>e. \<not> is_close e) pre"
  shows "(code = Some 0 \<longrightarrow>
            fst (runPythonScript_main env run w scriptPath args) = Resolved (trim (stdout_of pre)) \<and>
            fst (runPythonScript_dmg env run w scriptPath args) = Resolved (trim (stdout_of pre)))
       \<and> (code \<noteq> Some 0 \<longrightarrow>
            fst (runPythonScript_main env run w scriptPath args)
              = Rejected (if stderr_of pre \<noteq> [] then stderr_of pre
                          else ''Python exited with code '' @ show_code code) \<and>
            fst (runPythonScript_dmg env run w scriptPath args)
              = Rejected (if stderr_of pre \<noteq> [] then stderr_of pre
                          else ''Python exited with code '' @ show_code code) \<and>
            (if stderr_of pre \<noteq> [] then stderr_of pre
             else ''Python exited with code '' @ show_code code) \<noteq> [])"
proof -
  have main: "fst (runPythonScript_main env run w scriptPath args) = promise_of (pre @ Close code # rest)"
    using assms(1) by (simp add: fst_runPythonScript_main)
  have dmg: "fst (runPythonScript_dmg env run w scriptPath args) = promise_of (pre @ Close code # rest)"
    using assms(1) by (simp add: fst_runPythonScript_dmg)
  show ?thesis
    unfolding main dmg promise_of_close [OF assms(2)] by simp
qed

theorem runPythonScript_settles_by_exit_code_witness:
  "fst (runPythonScript_main sample_env (exits (''/tmp/x.csv'' @ [CHR 0x0A]) [] 0)
          sample_world ''export.py'' []) = Resolved ''/tmp/x.csv''
   \<and> fst (runPythonScript_dmg sample_env (exits [] [] 3)
          sample_world ''export.py'' []) = Rejected ''Python exited with code 3''
   \<and> fst (runPythonScript_dmg sample_env (exits [] ''Traceback'' 1)
          sample_world ''export.py'' []) = Rejected ''Traceback''"
proof -
  have pre: "\<And>out err. list_all (\<lambda>e. \<not> is_close e) [StdoutData out, StderrData err]"
    by (simp add: is_close_def)
  have ev: "\<And>out err code. emitted (exits out err code) = [StdoutData out, StderrData err] @ Close (Some code) # []"
    by (simp add: exits_def)
  have a: "fst (runPythonScript_main sample_env (exits (''/tmp/x.csv'' @ [CHR 0x0A]) [] 0)
          sample_world ''export.py'' []) = Resolved ''/tmp/x.csv''"
    using runPythonScript_settles_by_exit_code
            [OF ev [of "''/tmp/x.csv'' @ [CHR 0x0A]" "[]" 0] pre,
             where env = sample_env and w = sample_world and scriptPath = "''export.py''" and args = "[]"]
    by (simp add: stdout_of_def trim_defs decode_defs)
  have b: "fst (runPythonScript_dmg sample_env (exits [] [] 3)
          sample_world ''export.py'' []) = Rejected ''Python exited with code 3''"
    using runPythonScript_settles_by_exit_code
            [OF ev [of "[]" "[]" 3] pre,
             where env = sample_env and w = sample_world and scriptPath = "''export.py''" and args = "[]"]
    by (simp add: stderr_of_def decode_defs show_code_def show_int_def show_nat.simps digit_char_def)
  have c: "fst (runPythonScript_dmg sample_env (exits [] ''Traceback'' 1)
          sample_world ''export.py'' []) = Rejected ''Traceback''"
    using runPythonScript_settles_by_exit_code
            [OF ev [of "[]" "''Traceback''" 1] pre,
             where env = sample_env and w = sample_world and scriptPath = "''export.py''" and args = "[]"]
    by (simp add: stderr_of_def decode_defs)
  from a b c show ?thesis by simp
qed

text \<open>
  The \<open>error\<close> event of the child has no part in the outcome, and every rejection has
  the form the \<open>close\<close> listener gives it.
\<close>

lemma promise_of_ignores_error_event:
  "promise_of (pre @ SpawnError e # rest) = promise_of (pre @ rest)"
  by (simp add: promise_of_def)

lemma rejection_has_exit_code_form:
  assumes "promise_of evs = Rejected msg"
  shows "\<exists>pre code rest. evs = pre @ Close code # rest \<and> list_all (\<lambda>e. \<not> is_close e) pre
           \<and> code \<noteq> Some 0
           \<and> msg = (if stderr_of pre \<noteq> [] then stderr_of pre
                      else ''Python exited with code '' @ show_code code)"
proof (cases "list_all (\<lambda>e. \<not> is_close e) evs")
  case True
  then show ?thesis using assms by (simp add: promise_of_no_close)
next
  case False
  then have "\<exists>e \<in> set evs. is_close e" by (simp add: list_all_iff)
  then have "\<exists>ys x zs. evs = ys @ x # zs \<and> is_close x \<and> (\<forall>y \<in> set ys. \<not> is_close y)"
    by (rule split_list_first_prop)
  then obtain pre e rest where evs: "evs = pre @ e # rest" and e: "is_close e"
    and pre: "\<forall>x \<in> set pre. \<not> is_close x"
    by blast
  from e obtain code where c: "e = Close code" by (cases e) (simp_all add: is_close_def)
  have p: "list_all (\<lambda>e. \<not> is_close e) pre" using pre by (simp add: list_all_iff)
  have form: "promise_of evs =
           (if code = Some 0 then Resolved (trim (stdout_of pre))
            else Rejected (if stderr_of pre \<noteq> [] then stderr_of pre
                           else ''Python exited with code '' @ show_code code))"
    unfolding evs c by (rule promise_of_close [OF p])
  have code: "code \<noteq> Some 0" using assms form by auto
  then have msg: "msg = (if stderr_of pre \<noteq> [] then stderr_of pre
                      else ''Python exited with code '' @ show_code code)"
    using assms form by simp
  from evs c p code msg show ?thesis by blast
qed

section \<open>Properties of the handlers\<close>

lemmas export_handler_defs =
  marketbrain_exportCsv_main_def binance_market_exportCsv_main_def exportPDF_main_def
  marketbrain_exportCsv_dmg_def binance_market_exportCsv_dmg_def exportPDF_dmg_def

lemma cancelled_export_value:
  assumes "(channel, handler) \<in> set (export_handlers v)" and "canceled saveDialog"
  shows "handler env run saveDialog now w params = (Returned (cancel_value v channel), w)"
  using assms
  by (cases v) (auto simp: export_handlers_def cancel_value_def export_handler_defs)

text \<open>
  C3, as amended. When the user cancels the save dialog, every export handler of either
  variant returns at once, raising nothing, and leaves the state as it was: no worker is
  spawned, no file is written, nothing is copied or opened. The handlers that answer
  with a cancelled result, \<open>marketbrain:exportCsv\<close> of both variants and
  \<open>binance_market:exportCsv\<close> of the first, return \<open>{canceled: true}\<close>.
\<close>

theorem cancelled_export_does_nothing:
  assumes "(channel, handler) \<in> set (export_handlers v)" and "canceled saveDialog"
  shows "snd (handler env run saveDialog now w params) = w
       \<and> (\<exists>result. fst (handler env run saveDialog now w params) = Returned result)
       \<and> (answers_canceled v channel \<longrightarrow>
            fst (handler env run saveDialog now w params) = Returned (JObj [(''canceled'', JBool True)]))"
proof -
  have "handler env run saveDialog now w params = (Returned (cancel_value v channel), w)"
    using assms by (rule cancelled_export_value)
  moreover have "answers_canceled v channel \<longrightarrow> cancel_value v channel = JObj [(''canceled'', JBool True)]"
    by (cases v) (auto simp: answers_canceled_def cancel_value_def)
  ultimately show ?thesis by simp
qed

theorem cancelled_export_does_nothing_witness:
  "marketbrain_exportCsv_main sample_env still_running \<lparr>canceled = True, filePath = []\<rparr> sample_world sample_params
     = (Returned (JObj [(''canceled'', JBool True)]), sample_world)
   \<and> snd (exportPDF_dmg sample_env still_running \<lparr>canceled = True, filePath = []\<rparr> 0 sample_world sample_params)
     = sample_world"
proof -
  have a: "answers_canceled Main ''marketbrain:exportCsv''"
    by (simp add: answers_canceled_def)
  have m: "(''marketbrain:exportCsv'', \<lambda>env run saveDialog now. marketbrain_exportCsv_main env run saveDialog)
             \<in> set (export_handlers Main)"
   and p: "(''exportPDF'', exportPDF_dmg) \<in> set (export_handlers Dmg)"
    by (simp_all add: export_handlers_def)
  have c: "canceled \<lparr>canceled = True, filePath = []\<rparr>" by simp
  show ?thesis
    using cancelled_export_does_nothing
            [OF m c, where env = sample_env and w = sample_world and params = sample_params] a
          cancelled_export_does_nothing
            [OF p c, where env = sample_env and now = 0 and w = sample_world and params = sample_params]
    by (simp add: prod_eq_iff)
qed

text \<open>
  C3 as stated fails: on a cancelled dialog \<open>exportPDF\<close> answers \<open>{success: false}\<close>
  in the first variant and \<open>undefined\<close> in the second, as does
  \<open>binance_market:exportCsv\<close> of the second; none of these is a cancelled result.
\<close>

theorem cancelled_exportPDF_shape_counterexample:
  "fst (exportPDF_main sample_env still_running \<lparr>canceled = True, filePath = []\<rparr> 0 sample_world sample_params)
     = Returned (JObj [(''success'', JBool False)])
   \<and> fst (exportPDF_dmg sample_env still_running \<lparr>canceled = True, filePath = []\<rparr> 0 sample_world sample_params)
     = Returned Undefined
   \<and> fst (binance_market_exportCsv_dmg sample_env still_running \<lparr>canceled = True, filePath = []\<rparr> sample_world
           sample_params)
     = Returned Undefined
   \<and> JObj [(''success'', JBool False)] \<noteq> JObj [(''cancelled'', JBool True)]
   \<and> JObj [(''success'', JBool False)] \<noteq> JObj [(''canceled'', JBool True)]
   \<and> Undefined \<noteq> JObj [(''cancelled'', JBool True)]
   \<and> Undefined \<noteq> JObj [(''canceled'', JBool True)]"
  by (simp add: exportPDF_main_def exportPDF_dmg_def binance_market_exportCsv_dmg_def)

text \<open>
  C6, as amended. For a PDF export request for section \<open>binance_polar\<close> no worker is
  spawned and no file is written, in either variant and whatever the dialog answered,
  and the handler returns a result. In the first variant, with the destination
  confirmed, the result is the failure \<open>Export is disabled for Binance Polar.\<close>, a
  message that differs from the one an unknown section gets
  (\<open>Unknown PDF export section: \<close> and the name); with the dialog cancelled it is
  \<open>{success: false}\<close>, without a message.
\<close>

theorem exportPDF_binance_polar:
  assumes "pdf_section params = ''binance_polar''"
  shows "exportPDF_main env run saveDialog now w params
           = (Returned (if canceled saveDialog then JObj [(''success'', JBool False)]
                        else JObj [(''success'', JBool False),
                                   (''error'', JStr ''Export is disabled for Binance Polar.'')]), w)
       \<and> snd (exportPDF_dmg env run saveDialog now w params) = w
       \<and> (\<exists>result. fst (exportPDF_dmg env run saveDialog now w params) = Returned result)
       \<and> (\<not> canceled saveDialog \<and> other \<noteq> ''allium'' \<and> other \<noteq> ''binance_market''
            \<and> other \<noteq> ''binance_polar'' \<longrightarrow>
            exportPDF_main env run saveDialog now w (params\<lparr>pdf_section := other\<rparr>)
              = (Returned (JObj [(''success'', JBool False),
                                 (''error'', JStr (''Unknown PDF export section: '' @ other))]), w)
            \<and> ''Unknown PDF export section: '' @ other \<noteq> ''Export is disabled for Binance Polar.'')"
  using assms by (simp add: exportPDF_main_def exportPDF_dmg_def)

theorem exportPDF_binance_polar_witness:
  "exportPDF_main sample_env still_running \<lparr>canceled = False, filePath = ''/out.pdf''\<rparr> 0 sample_world sample_params
     = (Returned (JObj [(''success'', JBool False),
                        (''error'', JStr ''Export is disabled for Binance Polar.'')]), sample_world)
   \<and> exportPDF_main sample_env still_running \<lparr>canceled = False, filePath = ''/out.pdf''\<rparr> 0 sample_world
        (sample_params\<lparr>pdf_section := ''lido''\<rparr>)
     = (Returned (JObj [(''success'', JBool False),
                        (''error'', JStr ''Unknown PDF export section: lido'')]), sample_world)"
  using exportPDF_binance_polar
          [where params = sample_params and other = "''lido''"
             and saveDialog = "\<lparr>canceled = False, filePath = ''/out.pdf''\<rparr>"
             and env = sample_env and now = 0 and w = sample_world]
  by (simp add: sample_params_def)

text \<open>
  C6 as stated fails: the second variant answers a \<open>binance_polar\<close> request with the
  message it has for any unknown section, and after a cancelled dialog the first variant
  answers without any message.
\<close>

theorem exportPDF_binance_polar_counterexample:
  "fst (exportPDF_dmg sample_env still_running \<lparr>canceled = False, filePath = ''/out.pdf''\<rparr> 0 sample_world sample_params)
     = Returned (JObj [(''success'', JBool False), (''error'', JStr ''Export not supported here.'')])
   \<and> fst (exportPDF_dmg sample_env still_running \<lparr>canceled = False, filePath = ''/out.pdf''\<rparr> 0 sample_world
           (sample_params\<lparr>pdf_section := ''lido''\<rparr>))
     = Returned (JObj [(''success'', JBool False), (''error'', JStr ''Export not supported here.'')])
   \<and> pdf_section sample_params = ''binance_polar''
   \<and> fst (exportPDF_main sample_env still_running \<lparr>canceled = True, filePath = []\<rparr> 0 sample_world sample_params)
     = Returned (JObj [(''success'', JBool False)])"
  by (simp add: exportPDF_dmg_def exportPDF_main_def sample_params_def)

text \<open>Every handler of the first variant turns the errors of what it calls into a result.\<close>

lemma run_pdf_script_main_never_throws:
  "fst (run_pdf_script_main env run saveDialog w scriptPath args) \<noteq> Threw msg"
  by (simp add: run_pdf_script_main_def split: prod.split promise.split option.split)

lemma exportPDF_main_never_throws:
  "fst (exportPDF_main env run saveDialog now w params) \<noteq> Threw msg"
  by (simp add: exportPDF_main_def Let_def run_pdf_script_main_never_throws
        split: option.split sum.split)

lemma exportCsv_main_never_throws:
  "fst (marketbrain_exportCsv_main env run saveDialog w params) \<noteq> Threw msg"
  "fst (binance_market_exportCsv_main env run saveDialog w params) \<noteq> Threw msg"
  by (simp_all add: marketbrain_exportCsv_main_def binance_market_exportCsv_main_def Let_def
        split: prod.split promise.split option.split)

lemma first_variant_exports_never_throw:
  "(channel, handler) \<in> set (export_handlers Main) \<Longrightarrow>
   fst (handler env run saveDialog now w params) \<noteq> Threw msg"
  using exportPDF_main_never_throws exportCsv_main_never_throws
  by (auto simp: export_handlers_def)

lemma first_variant_never_throws:
  "fst (saveApiKeys_main env w keys) \<noteq> Threw msg"
  "fst (loadApiKeys_main env w) \<noteq> Threw msg"
  "fst (runPython_main env run w scriptPath) \<noteq> Threw msg"
  by (simp_all add: saveApiKeys_main_def loadApiKeys_main_def runPython_main_def
        split: prod.split promise.split option.split sum.split)

text \<open>
  C2. In the second variant, \<open>exportPDF\<close> and \<open>binance_market:exportCsv\<close> have no
  \<open>try\<close>: when the worker exits with code 1 the rejection of \<open>runPythonScript\<close>
  leaves the handler as an exception. The first variant of \<open>exportPDF\<close> turns the same
  failure into a result.
\<close>

theorem dmg_handlers_throw:
  "fst (exportPDF_dmg sample_env (exits [] ''boom'' 1)
          \<lparr>canceled = False, filePath = ''/out.pdf''\<rparr> 0 sample_world
          (sample_params\<lparr>pdf_section := ''binance_market''\<rparr>)) = Threw ''boom''
   \<and> fst (binance_market_exportCsv_dmg sample_env (exits [] ''boom'' 1)
          \<lparr>canceled = False, filePath = ''/out.csv''\<rparr> sample_world sample_params) = Threw ''boom''
   \<and> fst (exportPDF_main sample_env (exits [] ''boom'' 1)
          \<lparr>canceled = False, filePath = ''/out.pdf''\<rparr> 0 sample_world
          (sample_params\<lparr>pdf_section := ''binance_market''\<rparr>))
       = Returned (JObj [(''success'', JBool False), (''error'', JStr ''boom'')])"
  by (simp add: exportPDF_dmg_def binance_market_exportCsv_dmg_def exportPDF_main_def
        run_pdf_script_dmg_def run_pdf_script_main_def
        runPythonScript_dmg_def runPythonScript_main_def spawn_listening_def Let_def exits_def promise_of_def
        decode_defs
        sample_params_def)

text \<open>
  C5. \<open>runPythonScript\<close> listens to \<open>close\<close> only. When the child cannot be spawned
  and emits \<open>error\<close>, the promise stays pending and the handler that awaits it never
  returns; if a \<open>close\<close> with the negative error number follows, the rejection reads
  like that of an exit code. A missing script, for which the interpreter exits with
  code 2, is rejected as any other exit with a code that is not 0.
\<close>

theorem spawn_failure_not_reported:
  "fst (runPythonScript_main
          sample_env \<lparr>emitted = [SpawnError ''spawn ENOENT''], written = []\<rparr>
          sample_world ''missing.py'' []) = Pending
   \<and> fst (runPythonScript_dmg
          sample_env \<lparr>emitted = [SpawnError ''spawn ENOENT''], written = []\<rparr>
          sample_world ''missing.py'' []) = Pending
   \<and> fst (runPython_main
          sample_env \<lparr>emitted = [SpawnError ''spawn ENOENT''], written = []\<rparr>
          sample_world ''missing.py'') = Hangs
   \<and> fst (runPythonScript_main
          sample_env \<lparr>emitted = [SpawnError ''spawn ENOENT'', Close (Some (- 2))], written = []\<rparr>
          sample_world ''missing.py'' []) = Rejected ''Python exited with code -2''
   \<and> fst (runPythonScript_main
          sample_env (exits [] ''[Errno 2] No such file or directory'' 2)
          sample_world ''missing.py'' []) = Rejected ''[Errno 2] No such file or directory''"
  by (simp add: runPython_main_def runPythonScript_dmg_def runPythonScript_main_def spawn_listening_def Let_def
        exits_def promise_of_def decode_defs show_code_def show_int_def show_nat.simps digit_char_def)

section \<open>The copy to the destination\<close>

lemma foldl_upd_other:
  "dest \<notin> fst ` set ws \<Longrightarrow> foldl (\<lambda>fs (path, data). fs(path \<mapsto> data)) fs ws dest = fs dest"
  by (induction ws arbitrary: fs) auto

lemma on_event_resolved_trimmed:
  assumes "\<And>out. settled s = Resolved out \<Longrightarrow> trim out = out"
      and "settled (on_event s e) = Resolved out"
  shows "trim out = out"
  using assms by (cases e) (auto simp: trim_idem split: if_splits)

lemma foldl_resolved_trimmed:
  "(\<And>out. settled s = Resolved out \<Longrightarrow> trim out = out) \<Longrightarrow>
   settled (foldl on_event s evs) = Resolved out \<Longrightarrow> trim out = out"
proof (induction evs arbitrary: s)
  case Nil
  then show ?case by simp
next
  case (Cons e evs)
  show ?case
  proof (rule Cons.IH [of "on_event s e"])
    fix out' assume "settled (on_event s e) = Resolved out'"
    then show "trim out' = out'" using Cons.prems(1) by (rule on_event_resolved_trimmed [rotated])
  next
    show "settled (foldl on_event (on_event s e) evs) = Resolved out" using Cons.prems(2) by simp
  qed
qed

lemma promise_resolved_trimmed:
  assumes "promise_of evs = Resolved out"
  shows "trim out = out"
proof (rule foldl_resolved_trimmed)
  show "settled (foldl on_event \<lparr>stdout = [], stderr = [], settled = Pending\<rparr> evs) = Resolved out"
    using assms by (simp add: promise_of_def)
next
  fix out' :: string
  assume "settled \<lparr>stdout = [], stderr = [], settled = Pending\<rparr> = Resolved out'"
  then show "trim out' = out'" by simp
qed

lemma copy_then_open:
  assumes "copyFileSync w1 src dest = (r, w2)"
  shows "copied w2 = copied w1 @ [(src, dest)] \<and> opened w2 = opened w1 \<and> spawned w2 = spawned w1
       \<and> (case r of
             Some err \<Rightarrow> files w2 = files w1
           | None \<Rightarrow> files w1 src \<noteq> None \<and> files w2 = (files w1)(dest := files w1 src))"
  using assms by (auto simp: copyFileSync_def Let_def split: option.splits if_splits)

text \<open>
  C10. When the worker's promise is rejected, or resolves with the path of an artifact
  that does not exist, the handler leaves the destination as it was: no export handler
  of either variant copies before the promise has resolved (after a rejection
  \<open>fs.copyFileSync\<close> is not called at all), a copy that raises changes no file, and
  nothing is opened. The destination is taken to differ from the temporary chart image
  that \<open>exportPDF\<close> writes before it spawns the worker, and the worker itself not to
  write it.
\<close>

theorem failed_export_leaves_destination:
  assumes h: "(channel, handler) \<in> set (export_handlers v)"
      and nw: "filePath saveDialog \<notin> fst ` set (written run)"
      and nc: "filePath saveDialog \<noteq> allium_chart_path env now"
      and failed: "export_failed (promise_of (emitted run)) (snd (handler env run saveDialog now w params))"
  shows "files (snd (handler env run saveDialog now w params)) (filePath saveDialog) = files w (filePath saveDialog)
       \<and> opened (snd (handler env run saveDialog now w params)) = opened w
       \<and> (is_rejected (promise_of (emitted run)) \<longrightarrow>
            copied (snd (handler env run saveDialog now w params)) = copied w)"
proof (cases "promise_of (emitted run)")
  case Pending
  with failed show ?thesis by (simp add: export_failed_def)
next
  case (Rejected msg)
  from h nc show ?thesis
    by (cases v)
       (auto simp: export_handlers_def marketbrain_exportCsv_main_def binance_market_exportCsv_main_def
          exportPDF_main_def marketbrain_exportCsv_dmg_def binance_market_exportCsv_dmg_def
          exportPDF_dmg_def run_pdf_script_main_def run_pdf_script_dmg_def
          runPythonScript_main_def runPythonScript_dmg_def writeFileSync_def
          spawn_listening_def Rejected foldl_upd_other [OF nw] is_rejected_def Let_def
          split: option.splits)
next
  case (Resolved out)
  then have tr: "trim out = out" by (rule promise_resolved_trimmed)
  from failed have missing: "files (snd (handler env run saveDialog now w params)) out = None"
    by (simp add: export_failed_def Resolved tr)
  from h nc missing show ?thesis
    by (cases v)
       (auto simp: export_handlers_def marketbrain_exportCsv_main_def binance_market_exportCsv_main_def
          exportPDF_main_def marketbrain_exportCsv_dmg_def binance_market_exportCsv_dmg_def
          exportPDF_dmg_def run_pdf_script_main_def run_pdf_script_dmg_def
          runPythonScript_main_def runPythonScript_dmg_def writeFileSync_def
          copyFileSync_def openPath_def
          spawn_listening_def Resolved tr foldl_upd_other [OF nw] is_rejected_def Let_def
          split: option.splits if_splits)
qed

lemma sample_chart_path: "allium_chart_path sample_env 0 = ''/tmp/allium_chart_0.png''"
  by (simp add: allium_chart_path_def sample_env_def posix_join_def posix_normalize_def
        normalizeString_def show_nat.simps digit_char_def)

theorem failed_export_leaves_destination_witness:
  "files (snd (exportPDF_dmg sample_env (exits [] ''boom'' 1)
                 \<lparr>canceled = False, filePath = ''/out.pdf''\<rparr> 0
                 (sample_world\<lparr>files := [''/out.pdf'' \<mapsto> ''old'']\<rparr>)
                 (sample_params\<lparr>pdf_section := ''binance_market''\<rparr>))) ''/out.pdf'' = Some ''old''
   \<and> copied (snd (exportPDF_dmg sample_env (exits [] ''boom'' 1)
                 \<lparr>canceled = False, filePath = ''/out.pdf''\<rparr> 0
                 (sample_world\<lparr>files := [''/out.pdf'' \<mapsto> ''old'']\<rparr>)
                 (sample_params\<lparr>pdf_section := ''binance_market''\<rparr>))) = []"
proof -
  have p: "promise_of (emitted (exits [] ''boom'' 1)) = Rejected ''boom''"
    by (simp add: promise_of_def exits_def decode_defs)
  have h: "(''exportPDF'', exportPDF_dmg) \<in> set (export_handlers Dmg)"
    by (simp add: export_handlers_def)
  have nw: "filePath \<lparr>canceled = False, filePath = ''/out.pdf''\<rparr> \<notin> fst ` set (written (exits [] ''boom'' 1))"
    by (simp add: exits_def)
  have nc: "filePath \<lparr>canceled = False, filePath = ''/out.pdf''\<rparr> \<noteq> allium_chart_path sample_env 0"
    by (simp add: sample_chart_path)
  have failed: "\<And>w. export_failed (promise_of (emitted (exits [] ''boom'' 1))) w"
    by (simp add: p export_failed_def)
  show ?thesis
    using failed_export_leaves_destination
            [OF h nw nc failed,
             where w = "sample_world\<lparr>files := [''/out.pdf'' \<mapsto> ''old'']\<rparr>"
               and params = "sample_params\<lparr>pdf_section := ''binance_market''\<rparr>"]
    by (simp add: p is_rejected_def sample_world_def)
qed

lemma stdout_of_chunks: "stdout_of evs = concat (map toString (stdout_chunks evs))"
proof (induction evs)
  case Nil
  then show ?case by (simp add: stdout_of_def stdout_chunks_def)
next
  case (Cons e evs)
  then show ?case by (cases e) (simp_all add: stdout_of_def stdout_chunks_def)
qed

lemma stdout_of_written:
  "list_all whole_characters (stdout_chunks evs) \<Longrightarrow> stdout_of evs = stdout_written evs"
  by (simp add: stdout_of_chunks stdout_written_def toString_concat_whole)

text \<open>
  C7. After a successful invocation (the child closes with code 0) the promise of
  \<open>runPythonScript\<close> holds the accumulated standard output, trimmed. When no buffer
  of standard output ends inside a character, the accumulated output is the text the
  worker wrote; when moreover the worker kept its contract and wrote one line, the
  promise holds the trimmed final line. The only call of \<open>fs.copyFileSync\<close> an export
  handler makes then has the string of the promise as its source and the path the
  dialog returned as its destination, and that string neither begins nor ends with a
  white space character.
\<close>

theorem successful_worker_path_is_trimmed_line:
  assumes h: "(channel, handler) \<in> set (export_handlers v)"
      and ev: "emitted run = pre @ Close (Some 0) # rest"
      and pre: "list_all (\<lambda>e. \<not> is_close e) pre"
  shows "fst (runPythonScript_main env run w0 scriptPath args) = Resolved (trim (stdout_of pre))
       \<and> fst (runPythonScript_dmg env run w0 scriptPath args) = Resolved (trim (stdout_of pre))
       \<and> (list_all whole_characters (stdout_chunks pre) \<longrightarrow> stdout_of pre = stdout_written pre)
       \<and> (list_all whole_characters (stdout_chunks pre) \<and> one_line (stdout_written pre) \<longrightarrow>
            trim (stdout_of pre) = trim (final_line (stdout_written pre)))
       \<and> (copied (snd (handler env run saveDialog now w params)) = copied w
            \<or> copied (snd (handler env run saveDialog now w params))
                = copied w @ [(trim (stdout_of pre), filePath saveDialog)])
       \<and> (trim (stdout_of pre) = []
            \<or> (\<not> isWhiteSpace (hd (chars (trim (stdout_of pre))))
                \<and> \<not> isWhiteSpace (last (chars (trim (stdout_of pre))))))"
proof -
  have p: "promise_of (emitted run) = Resolved (trim (stdout_of pre))"
    by (simp add: ev promise_of_close [OF pre])
  have inv: "fst (runPythonScript_main env run w0 scriptPath args) = Resolved (trim (stdout_of pre))"
            "fst (runPythonScript_dmg env run w0 scriptPath args) = Resolved (trim (stdout_of pre))"
    by (simp_all add: runPythonScript_main_def runPythonScript_dmg_def spawn_listening_def p)
  have written: "list_all whole_characters (stdout_chunks pre) \<longrightarrow> stdout_of pre = stdout_written pre"
    by (simp add: stdout_of_written)
  have line: "list_all whole_characters (stdout_chunks pre) \<and> one_line (stdout_written pre) \<longrightarrow>
                trim (stdout_of pre) = trim (final_line (stdout_written pre))"
    by (simp add: stdout_of_written one_line_trim)
  have ends: "trim (stdout_of pre) = []
            \<or> (\<not> isWhiteSpace (hd (chars (trim (stdout_of pre))))
                \<and> \<not> isWhiteSpace (last (chars (trim (stdout_of pre)))))"
    using trim_hd trim_last by blast
  have copy: "copied (snd (handler env run saveDialog now w params)) = copied w
            \<or> copied (snd (handler env run saveDialog now w params))
                = copied w @ [(trim (stdout_of pre), filePath saveDialog)]"
    using h
    by (cases v; simp add: export_handlers_def; elim disjE conjE;
        simp add: marketbrain_exportCsv_main_def binance_market_exportCsv_main_def
          exportPDF_main_def marketbrain_exportCsv_dmg_def binance_market_exportCsv_dmg_def
          exportPDF_dmg_def run_pdf_script_main_def run_pdf_script_dmg_def
          runPythonScript_main_def runPythonScript_dmg_def writeFileSync_def
          copyFileSync_def openPath_def spawn_listening_def p trim_idem Let_def
          split: option.splits)
  from inv written line ends copy show ?thesis by blast
qed

theorem successful_worker_path_is_trimmed_line_witness:
  "fst (runPythonScript_main sample_env
          \<lparr>emitted = [StdoutData ('' /tmp/caf'' @ [CHR 0xC3, CHR 0xA9]),
                      StdoutData (''.csv'' @ [CHR 0x0A]), Close (Some 0)],
            written = [(''/tmp/caf'' @ [CHR 0xC3, CHR 0xA9] @ ''.csv'', ''Date,Input USD'')]\<rparr>
          sample_world ''export_marketbrain_csv.py'' [])
     = Resolved (''/tmp/caf'' @ [CHR 0xC3, CHR 0xA9] @ ''.csv'')
   \<and> final_line ('' /tmp/caf'' @ [CHR 0xC3, CHR 0xA9] @ ''.csv'' @ [CHR 0x0A])
     = '' /tmp/caf'' @ [CHR 0xC3, CHR 0xA9] @ ''.csv''
   \<and> trim (final_line ('' /tmp/caf'' @ [CHR 0xC3, CHR 0xA9] @ ''.csv'' @ [CHR 0x0A]))
     = ''/tmp/caf'' @ [CHR 0xC3, CHR 0xA9] @ ''.csv''"
proof -
  let ?pre = "[StdoutData ('' /tmp/caf'' @ [CHR 0xC3, CHR 0xA9]), StdoutData (''.csv'' @ [CHR 0x0A])]"
  let ?run = "\<lparr>emitted = [StdoutData ('' /tmp/caf'' @ [CHR 0xC3, CHR 0xA9]),
                          StdoutData (''.csv'' @ [CHR 0x0A]), Close (Some 0)],
              written = [(''/tmp/caf'' @ [CHR 0xC3, CHR 0xA9] @ ''.csv'', ''Date,Input USD'')]\<rparr>"
  have h: "(''marketbrain:exportCsv'', \<lambda>env run saveDialog now. marketbrain_exportCsv_main env run saveDialog)
             \<in> set (export_handlers Main)"
    by (simp add: export_handlers_def)
  have ev: "emitted ?run = ?pre @ Close (Some 0) # []"
    by simp
  have pre: "list_all (\<lambda>e. \<not> is_close e) ?pre"
    by (simp add: is_close_def)
  have whole: "list_all whole_characters (stdout_chunks ?pre)"
    by (simp add: stdout_chunks_def whole_characters_def decode_defs)
  show ?thesis
    using whole successful_worker_path_is_trimmed_line
            [OF h ev pre,
             where env = sample_env and ?w0.0 = sample_world
               and scriptPath = "''export_marketbrain_csv.py''" and args = "[]"
               and saveDialog = "\<lparr>canceled = False, filePath = ''/out.csv''\<rparr>"
               and w = sample_world and params = sample_params]
    by (simp add: stdout_of_def stdout_written_def stdout_chunks_def decode_defs
          one_line_def final_line_def lines_written_def trim_defs)
qed

text \<open>
  C7 as stated fails: when the pipe is read in the middle of a character, each part of
  it becomes U+FFFD in the buffer it is in, and the promise resolves with a string that
  is not the line the worker wrote. The worker writes the one line \<open>/tmp/caf\<close>,
  U+00E9, \<open>.csv\<close> and exits with code 0; the copy is then asked for a file that is
  not the artifact.
\<close>

theorem split_character_counterexample:
  "fst (runPythonScript_main sample_env
          \<lparr>emitted = [StdoutData (''/tmp/caf'' @ [CHR 0xC3]),
                      StdoutData ([CHR 0xA9] @ ''.csv'' @ [CHR 0x0A]), Close (Some 0)],
            written = [(''/tmp/caf'' @ [CHR 0xC3, CHR 0xA9] @ ''.csv'', ''Date,Input USD'')]\<rparr>
          sample_world ''export_marketbrain_csv.py'' [])
     = Resolved (''/tmp/caf'' @ [CHR 0xEF, CHR 0xBF, CHR 0xBD, CHR 0xEF, CHR 0xBF, CHR 0xBD] @ ''.csv'')
   \<and> stdout_written [StdoutData (''/tmp/caf'' @ [CHR 0xC3]),
                      StdoutData ([CHR 0xA9] @ ''.csv'' @ [CHR 0x0A])]
     = ''/tmp/caf'' @ [CHR 0xC3, CHR 0xA9] @ ''.csv'' @ [CHR 0x0A]
   \<and> one_line (''/tmp/caf'' @ [CHR 0xC3, CHR 0xA9] @ ''.csv'' @ [CHR 0x0A])
   \<and> trim (final_line (''/tmp/caf'' @ [CHR 0xC3, CHR 0xA9] @ ''.csv'' @ [CHR 0x0A]))
     = ''/tmp/caf'' @ [CHR 0xC3, CHR 0xA9] @ ''.csv''
   \<and> ''/tmp/caf'' @ [CHR 0xEF, CHR 0xBF, CHR 0xBD, CHR 0xEF, CHR 0xBF, CHR 0xBD] @ ''.csv''
     \<noteq> ''/tmp/caf'' @ [CHR 0xC3, CHR 0xA9] @ ''.csv''
   \<and> marketbrain_exportCsv_main sample_env
        \<lparr>emitted = [StdoutData (''/tmp/caf'' @ [CHR 0xC3]),
                    StdoutData ([CHR 0xA9] @ ''.csv'' @ [CHR 0x0A]), Close (Some 0)],
          written = [(''/tmp/caf'' @ [CHR 0xC3, CHR 0xA9] @ ''.csv'', ''Date,Input USD'')]\<rparr>
        \<lparr>canceled = False, filePath = ''/out.csv''\<rparr> sample_world sample_params
     = (Returned (JObj [(''canceled'', JBool False),
                        (''error'', JStr (''ENOENT: no such file or directory, copyfile ''
                           @ quoted (''/tmp/caf'' @ [CHR 0xEF, CHR 0xBF, CHR 0xBD, CHR 0xEF, CHR 0xBF, CHR 0xBD] @ ''.csv'')
                           @ '' -> '' @ quoted ''/out.csv''))]),
        sample_world
          \<lparr>files := [''/tmp/caf'' @ [CHR 0xC3, CHR 0xA9] @ ''.csv'' \<mapsto> ''Date,Input USD''],
            spawned := [\<lparr>command = ''/app/Resources/pyapp/bin/python3'',
                         argv = [''/app/Resources/python/whalescope_scripts/export_marketbrain_csv.py'',
                                 ''btc'', ''2025-09-01'', ''2025-09-30''],
                         spawn_cwd = None\<rparr>],
            copied := [(''/tmp/caf'' @ [CHR 0xEF, CHR 0xBF, CHR 0xBD, CHR 0xEF, CHR 0xBF, CHR 0xBD] @ ''.csv'',
                        ''/out.csv'')]\<rparr>)"
  by (simp add: runPythonScript_main_def spawn_listening_def promise_of_def
        stdout_written_def stdout_chunks_def decode_defs trim_defs
        one_line_def final_line_def lines_written_def
        marketbrain_exportCsv_main_def copyFileSync_def pythonPath_main_def realScriptPath_def
        sample_env_def sample_world_def sample_params_def quoted_def
        posix_join_def posix_normalize_def normalizeString_def posix_basename_def Let_def)

section \<open>Paths\<close>

lemma split_slash_not_Nil: "split_slash s \<noteq> []"
  by (induction s) (auto split: list.splits)

lemma split_slash_plain: "CHR ''/'' \<notin> set n \<Longrightarrow> split_slash n = [n]"
  by (induction n) auto

lemma split_slash_append:
  "split_slash (p @ CHR ''/'' # q) = split_slash p @ split_slash q"
proof (induction p)
  case Nil
  show ?case by simp
next
  case (Cons c p)
  obtain x xs where x: "split_slash p = x # xs"
    using split_slash_not_Nil [of p] by (cases "split_slash p") auto
  show ?case using Cons x by simp
qed

lemma split_slash_child:
  "CHR ''/'' \<notin> set n \<Longrightarrow> split_slash (p @ CHR ''/'' # n) = split_slash p @ [n]"
  by (simp add: split_slash_append split_slash_plain)

lemma normalize_segs_snoc:
  "plain_name n \<Longrightarrow> normalize_segs a res (ss @ [n]) = normalize_segs a res ss @ [n]"
proof (induction ss arbitrary: res)
  case Nil
  then show ?case by (simp add: plain_name_def)
next
  case (Cons s ss)
  show ?case
    by (simp only: append_Cons normalize_segs.simps Cons.IH [OF Cons.prems] split: if_split) simp
qed

lemma normalize_segs_nonempty:
  "[] \<notin> set res \<Longrightarrow> [] \<notin> set (normalize_segs a res ss)"
proof (induction ss arbitrary: res)
  case Nil
  then show ?case by simp
next
  case (Cons s ss)
  have b: "[] \<notin> set (butlast res)" using Cons.prems by (metis in_set_butlastD)
  have d: "[] \<notin> set (res @ [''..''])" using Cons.prems by simp
  have e: "s \<noteq> [] \<Longrightarrow> [] \<notin> set (res @ [s])" using Cons.prems by simp
  show ?case
    using Cons.IH [OF b] Cons.IH [OF d] Cons.IH [OF e] Cons.IH [OF Cons.prems]
    by (simp only: normalize_segs.simps split: if_split) blast
qed

lemma join_slash_snoc: "R \<noteq> [] \<Longrightarrow> join_slash (R @ [n]) = join_slash R @ CHR ''/'' # n"
  by (induction R rule: join_slash.induct) auto

lemma join_slash_nonempty: "R \<noteq> [] \<Longrightarrow> [] \<notin> set R \<Longrightarrow> join_slash R \<noteq> []"
  by (induction R rule: join_slash.induct) auto

lemma plain_name_ends:
  assumes "plain_name n"
  shows "n \<noteq> [] \<and> last n \<noteq> CHR ''/'' \<and> hd n \<noteq> CHR ''/''"
proof -
  from assms have ne: "n \<noteq> []" and noslash: "CHR ''/'' \<notin> set n"
    by (simp_all add: plain_name_def)
  from ne have "last n \<in> set n" and "hd n \<in> set n" by simp_all
  with noslash ne show ?thesis by metis
qed

lemma posix_normalize_plain:
  assumes "plain_name n"
  shows "posix_normalize n = n"
proof -
  have "CHR ''/'' \<notin> set n" using assms by (simp add: plain_name_def)
  then have "split_slash n = [n]" by (rule split_slash_plain)
  moreover have "normalize_segs True [] [n] = [n]"
    using assms by (simp add: plain_name_def)
  ultimately have "normalizeString n True = n"
    by (simp only: normalizeString_def join_slash.simps)
  then show ?thesis
    using plain_name_ends [OF assms] by (simp add: posix_normalize_def Let_def)
qed

text \<open>A path followed by a file name normalizes to something that ends with that name.\<close>

lemma posix_normalize_child_ends:
  assumes n: "plain_name n" and q: "q \<noteq> []"
  shows "\<exists>X. posix_normalize (q @ CHR ''/'' # n) = X @ n \<and> (X = [] \<or> last X = CHR ''/'')"
proof -
  let ?a = "hd q \<noteq> CHR ''/''"
  let ?R = "normalize_segs ?a [] (split_slash q)"
  have noslash: "CHR ''/'' \<notin> set n" using n by (simp add: plain_name_def)
  have segs: "normalize_segs ?a [] (split_slash (q @ CHR ''/'' # n)) = ?R @ [n]"
    by (simp add: split_slash_child [OF noslash] normalize_segs_snoc [OF n])
  have hd: "hd (q @ CHR ''/'' # n) = hd q" using q by simp
  have last: "last (q @ CHR ''/'' # n) \<noteq> CHR ''/''" using plain_name_ends [OF n] by simp
  have p: "normalizeString (q @ CHR ''/'' # n) ?a = join_slash (?R @ [n])"
    by (simp add: normalizeString_def segs)
  have ne: "join_slash (?R @ [n]) \<noteq> []"
    using plain_name_ends [OF n] by (cases "?R = []") (simp_all add: join_slash_snoc)
  have norm: "posix_normalize (q @ CHR ''/'' # n)
                = (if hd q = CHR ''/'' then ''/'' else []) @ join_slash (?R @ [n])"
    using last ne by (simp add: posix_normalize_def hd p Let_def del: normalize_segs.simps)
  show ?thesis
  proof (cases "?R = []")
    case True
    then have "posix_normalize (q @ CHR ''/'' # n) = (if hd q = CHR ''/'' then ''/'' else []) @ n"
      by (simp add: norm)
    then show ?thesis by (intro exI [of _ "if hd q = CHR ''/'' then ''/'' else []"]) simp
  next
    case False
    then have "posix_normalize (q @ CHR ''/'' # n)
                 = ((if hd q = CHR ''/'' then ''/'' else []) @ join_slash ?R @ ''/'') @ n"
      by (simp add: norm join_slash_snoc)
    then show ?thesis
      by (intro exI [of _ "(if hd q = CHR ''/'' then ''/'' else []) @ join_slash ?R @ ''/''"]) simp
  qed
qed

text \<open>When the path itself has a last segment, the result is the normal path, a slash, the name.\<close>

lemma posix_normalize_child:
  assumes n: "plain_name n" and q: "q \<noteq> []" and l: "last q \<noteq> CHR ''/''"
      and R: "normalize_segs (hd q \<noteq> CHR ''/'') [] (split_slash q) \<noteq> []"
  shows "posix_normalize (q @ CHR ''/'' # n) = posix_normalize q @ CHR ''/'' # n"
proof -
  let ?a = "hd q \<noteq> CHR ''/''"
  let ?R = "normalize_segs ?a [] (split_slash q)"
  have noslash: "CHR ''/'' \<notin> set n" using n by (simp add: plain_name_def)
  have segs: "normalize_segs ?a [] (split_slash (q @ CHR ''/'' # n)) = ?R @ [n]"
    by (simp add: split_slash_child [OF noslash] normalize_segs_snoc [OF n])
  have hd: "hd (q @ CHR ''/'' # n) = hd q" using q by simp
  have last: "last (q @ CHR ''/'' # n) \<noteq> CHR ''/''" using plain_name_ends [OF n] by simp
  have jR: "join_slash ?R \<noteq> []"
    using R by (rule join_slash_nonempty) (rule normalize_segs_nonempty, simp)
  have 1: "posix_normalize (q @ CHR ''/'' # n)
             = (if hd q = CHR ''/'' then ''/'' else []) @ join_slash ?R @ CHR ''/'' # n"
    using last R
    by (simp add: posix_normalize_def hd normalizeString_def segs join_slash_snoc Let_def
          del: normalize_segs.simps)
  have 2: "posix_normalize q = (if hd q = CHR ''/'' then ''/'' else []) @ join_slash ?R"
    using q l jR by (simp add: posix_normalize_def normalizeString_def Let_def del: normalize_segs.simps)
  show ?thesis by (simp add: 1 2)
qed

lemma posix_basename_suffix:
  assumes "plain_name n" and "X = [] \<or> last X = CHR ''/''"
  shows "posix_basename (X @ n) = n"
proof -
  have noslash: "CHR ''/'' \<notin> set n" and ne: "n \<noteq> []" and l: "last n \<noteq> CHR ''/''"
    using assms(1) plain_name_ends [of n] by (simp_all add: plain_name_def)
  have 1: "dropWhile (\<lambda>c. c = CHR ''/'') (rev n @ rev X) = rev n @ rev X"
    using ne l by (cases "rev n") (auto simp: hd_rev)
  have 2: "takeWhile (\<lambda>c. c \<noteq> CHR ''/'') (rev X) = []"
    using assms(2) by (cases "rev X") (auto simp: hd_rev [symmetric])
  have "takeWhile (\<lambda>c. c \<noteq> CHR ''/'') (rev n @ rev X)
          = rev n @ takeWhile (\<lambda>c. c \<noteq> CHR ''/'') (rev X)"
    by (rule takeWhile_append2) (use noslash in auto)
  then have "takeWhile (\<lambda>c. c \<noteq> CHR ''/'') (rev n @ rev X) = rev n"
    by (simp only: 2 append_Nil2)
  then show ?thesis by (simp add: posix_basename_def 1)
qed

lemma posix_basename_join:
  assumes "plain_name n"
  shows "posix_basename (posix_join [d, n]) = n"
proof (cases "d = []")
  case True
  then have "posix_join [d, n] = n"
    using assms plain_name_ends [of n] by (simp add: posix_join_def posix_normalize_plain)
  then show ?thesis using posix_basename_suffix [OF assms, of "[]"] by simp
next
  case False
  then have j: "posix_join [d, n] = posix_normalize (d @ CHR ''/'' # n)"
    using plain_name_ends [OF assms] by (simp add: posix_join_def)
  obtain X where "posix_normalize (d @ CHR ''/'' # n) = X @ n" and "X = [] \<or> last X = CHR ''/''"
    using posix_normalize_child_ends [OF assms False] by blast
  then show ?thesis using posix_basename_suffix [OF assms] by (simp add: j)
qed

section \<open>The temporary chart image\<close>

lemma digit_char_code: "d < 10 \<Longrightarrow> of_char (digit_char d) = 48 + d"
proof -
  assume "d < 10"
  then have "d \<in> {0, 1, 2, 3, 4, 5, 6, 7, 8, 9}" by auto
  then show ?thesis by (auto simp: digit_char_def)
qed

lemma digits_value_snoc: "digits_value (s @ [c]) = 10 * digits_value s + (of_char c - 48)"
  by (simp add: digits_value_def)

lemma digits_value_show_nat: "digits_value (show_nat n) = n"
proof (induction n rule: show_nat.induct)
  case (1 n)
  show ?case
  proof (cases "n < 10")
    case True
    then show ?thesis
      using digits_value_snoc [of "[]" "digit_char n"]
      by (simp add: show_nat.simps [of n] digit_char_code digits_value_def)
  next
    case False
    then have "digits_value (show_nat n) = 10 * digits_value (show_nat (n div 10)) + n mod 10"
      by (simp add: show_nat.simps [of n] digits_value_snoc digit_char_code)
    also have "\<dots> = 10 * (n div 10) + n mod 10" using 1 False by simp
    finally show ?thesis by simp
  qed
qed

lemma show_nat_inj: "show_nat a = show_nat b \<Longrightarrow> a = b"
  by (metis digits_value_show_nat)

lemma digit_char_not_slash: "d < 10 \<Longrightarrow> digit_char d \<noteq> CHR ''/''"
proof -
  assume "d < 10"
  then have "d \<in> {0, 1, 2, 3, 4, 5, 6, 7, 8, 9}" by auto
  then show ?thesis by (auto simp: digit_char_def)
qed

lemma show_nat_no_slash: "CHR ''/'' \<notin> set (show_nat n)"
proof (induction n rule: show_nat.induct)
  case (1 n)
  show ?case
  proof (cases "n < 10")
    case True
    then show ?thesis using digit_char_not_slash [of n] by (simp add: show_nat.simps [of n])
  next
    case False
    then show ?thesis
      using 1 digit_char_not_slash [of "n mod 10"] by (simp add: show_nat.simps [of n])
  qed
qed

lemma chart_name_plain: "plain_name (''allium_chart_'' @ show_nat now @ ''.png'')"
  using show_nat_no_slash [of now] by (simp add: plain_name_def)

text \<open>
  C8, as amended. The name of the temporary chart image embeds the value of
  \<open>Date.now()\<close> and nothing else: two generated paths are equal exactly when the two
  clock values are equal. Exports that read different clock values never share a chart
  image; exports that read the same millisecond write the same file.
\<close>

theorem chart_path_distinct_iff_clock_differs:
  "allium_chart_path env t1 = allium_chart_path env t2 \<longleftrightarrow> t1 = t2"
proof
  assume "allium_chart_path env t1 = allium_chart_path env t2"
  then have "posix_basename (allium_chart_path env t1) = posix_basename (allium_chart_path env t2)"
    by simp
  then have "''allium_chart_'' @ show_nat t1 @ ''.png'' = ''allium_chart_'' @ show_nat t2 @ ''.png''"
    by (simp only: allium_chart_path_def posix_basename_join [OF chart_name_plain])
  then have "show_nat t1 = show_nat t2" by simp
  then show "t1 = t2" by (rule show_nat_inj)
next
  assume "t1 = t2"
  then show "allium_chart_path env t1 = allium_chart_path env t2" by simp
qed

text \<open>
  C8 as stated fails: two exports of different symbols that read the same clock value,
  the first still waiting for its worker, write the same chart image, and the second
  overwrites what the first wrote.
\<close>

theorem same_tick_chart_collision_counterexample:
  "files (snd (exportPDF_main sample_env still_running \<lparr>canceled = False, filePath = ''/a.pdf''\<rparr>
                 1759312800000
                 sample_world
                 (sample_params\<lparr>pdf_section := ''allium'', symbols := ''btc'',
                    chartImageBase64 := Some ''data:image/png;base64,AAAA''\<rparr>)))
         ''/tmp/allium_chart_1759312800000.png'' = Some [CHR 0x00, CHR 0x00, CHR 0x00]
   \<and> files (snd (exportPDF_main sample_env still_running \<lparr>canceled = False, filePath = ''/b.pdf''\<rparr>
                 1759312800000
                 (snd (exportPDF_main sample_env still_running \<lparr>canceled = False, filePath = ''/a.pdf''\<rparr>
                 1759312800000
                         sample_world
                         (sample_params\<lparr>pdf_section := ''allium'', symbols := ''btc'',
                            chartImageBase64 := Some ''data:image/png;base64,AAAA''\<rparr>)))
                 (sample_params\<lparr>pdf_section := ''allium'', symbols := ''eth'',
                    chartImageBase64 := Some ''data:image/png;base64,BBBB''\<rparr>)))
         ''/tmp/allium_chart_1759312800000.png'' = Some [CHR 0x04, CHR 0x10, CHR 0x41]
   \<and> allium_chart_path sample_env 1759312800000 = ''/tmp/allium_chart_1759312800000.png''"
proof -
  have chart: "allium_chart_path sample_env 1759312800000 = ''/tmp/allium_chart_1759312800000.png''"
    by (simp add: allium_chart_path_def sample_env_def posix_join_def posix_normalize_def
          normalizeString_def show_nat.simps digit_char_def)
  have strip: "strip_data_url ''data:image/png;base64,AAAA'' = ''AAAA''"
              "strip_data_url ''data:image/png;base64,BBBB'' = ''BBBB''"
    by (simp_all add: strip_data_url_def)
  have dec: "base64_decode sample_env ''AAAA'' = [CHR 0x00, CHR 0x00, CHR 0x00]"
            "base64_decode sample_env ''BBBB'' = [CHR 0x04, CHR 0x10, CHR 0x41]"
   and un: "unwritable sample_world = {}"
    by (simp_all add: sample_env_def sample_world_def)
  have pend: "promise_of (emitted still_running) = Pending" "written still_running = []"
    by (simp_all add: still_running_def promise_of_def)
  show ?thesis
    by (simp add: exportPDF_main_def run_pdf_script_main_def runPythonScript_main_def spawn_listening_def
          writeFileSync_def chart strip dec un pend sample_params_def Let_def)
qed

section \<open>Script lookup in the packaged application\<close>

lemma posix_normalize_into_dir:
  assumes n: "plain_name n" and t: "plain_name t"
      and q: "split_slash q = ys @ [t]"
  shows "posix_normalize (q @ CHR ''/'' # n) = posix_normalize q @ CHR ''/'' # n"
proof (rule posix_normalize_child [OF n])
  show ne: "q \<noteq> []" using q t by (cases q) (auto simp: plain_name_def)
  have "CHR ''/'' \<notin> set t" using t by (simp add: plain_name_def)
  show "last q \<noteq> CHR ''/''"
  proof
    assume "last q = CHR ''/''"
    then have "q = butlast q @ CHR ''/'' # []" using ne by (metis append_butlast_last_id)
    then have "split_slash q = split_slash (butlast q) @ [[]]"
      using split_slash_append [of "butlast q" "[]"] by simp
    with q have "t = []" by simp
    with t show False by (simp add: plain_name_def)
  qed
  show "normalize_segs (hd q \<noteq> CHR ''/'') [] (split_slash q) \<noteq> []"
    by (simp only: q normalize_segs_snoc [OF t]) simp
qed

lemma split_slash_scripts:
  "split_slash (R @ CHR ''/'' # ''python/whalescope_scripts'')
     = (split_slash R @ [''python'']) @ [''whalescope_scripts'']"
  "split_slash ''python/whalescope_scripts'' = [''python''] @ [''whalescope_scripts'']"
  "split_slash (P @ CHR ''/'' # ''whalescope_scripts'') = split_slash P @ [''whalescope_scripts'']"
  "split_slash ''whalescope_scripts'' = [] @ [''whalescope_scripts'']"
  by (simp_all add: split_slash_append)

lemma plain_whalescope_scripts: "plain_name ''whalescope_scripts''"
  by (simp add: plain_name_def)

text \<open>
  C4, as amended. In the packaged application, \<open>runPythonScript\<close> of the first variant
  looks a script up by the base name of the path it is given: whenever that base name is
  a file name proper, the script resolved is the file of that name directly inside the
  packaged scripts directory, whatever directories, \<open>..\<close> segments or absolute prefix
  the path had. \<open>getScriptPath\<close> of the second variant strips nothing; for a script name
  that is a file name proper, as every name its handlers pass is, it resolves to that
  file directly inside its scripts directory.
\<close>

theorem packaged_script_lookup:
  assumes "isPackaged env"
  shows "(plain_name (posix_basename scriptPath) \<longrightarrow>
            realScriptPath env scriptPath
              = scripts_dir Main env @ ''/'' @ posix_basename scriptPath)
       \<and> (plain_name scriptName \<longrightarrow>
            getScriptPath env scriptName = scripts_dir Dmg env @ ''/'' @ scriptName)"
proof (intro conjI impI)
  assume b: "plain_name (posix_basename scriptPath)"
  then have ne: "posix_basename scriptPath \<noteq> []" by (simp add: plain_name_def)
  show "realScriptPath env scriptPath = scripts_dir Main env @ ''/'' @ posix_basename scriptPath"
  proof (cases "resourcesPath env = []")
    case True
    then show ?thesis
      using assms ne
        posix_normalize_into_dir [OF b plain_whalescope_scripts split_slash_scripts(2)]
      by (simp add: realScriptPath_def scripts_dir_def posix_join_def)
  next
    case False
    then show ?thesis
      using assms ne
        posix_normalize_into_dir [OF b plain_whalescope_scripts split_slash_scripts(1), of "resourcesPath env"]
      by (simp add: realScriptPath_def scripts_dir_def posix_join_def)
  qed
next
  assume n: "plain_name scriptName"
  then have ne: "scriptName \<noteq> []" by (simp add: plain_name_def)
  show "getScriptPath env scriptName = scripts_dir Dmg env @ ''/'' @ scriptName"
  proof (cases "projectRoot_dmg env = []")
    case True
    then show ?thesis
      using ne posix_normalize_into_dir [OF n plain_whalescope_scripts split_slash_scripts(4)]
      by (simp add: getScriptPath_def scripts_dir_def posix_join_def)
  next
    case False
    then show ?thesis
      using ne
        posix_normalize_into_dir [OF n plain_whalescope_scripts split_slash_scripts(3), of "projectRoot_dmg env"]
      by (simp add: getScriptPath_def scripts_dir_def posix_join_def)
  qed
qed

theorem packaged_script_lookup_witness:
  "realScriptPath sample_env ''../../etc/export_pdf_allium.py''
     = ''/app/Resources/python/whalescope_scripts/export_pdf_allium.py''
   \<and> realScriptPath sample_env ''/tmp/evil.py'' = ''/app/Resources/python/whalescope_scripts/evil.py''
   \<and> getScriptPath sample_env ''export_pdf_allium.py''
     = ''/app/Resources/pyapp/whalescope_scripts/export_pdf_allium.py''"
proof -
  have p: "isPackaged sample_env" by (simp add: sample_env_def)
  have b1: "posix_basename ''../../etc/export_pdf_allium.py'' = ''export_pdf_allium.py''"
   and b2: "posix_basename ''/tmp/evil.py'' = ''evil.py''"
    by (simp_all add: posix_basename_def)
  have d1: "scripts_dir Main sample_env = ''/app/Resources/python/whalescope_scripts''"
   and d2: "scripts_dir Dmg sample_env = ''/app/Resources/pyapp/whalescope_scripts''"
    by (simp_all add: scripts_dir_def projectRoot_dmg_def sample_env_def posix_join_def
          posix_normalize_def normalizeString_def)
  show ?thesis
    using packaged_script_lookup [OF p, of "''../../etc/export_pdf_allium.py''" "''export_pdf_allium.py''"]
          packaged_script_lookup [OF p, of "''/tmp/evil.py''" "''export_pdf_allium.py''"]
    by (simp add: b1 b2 d1 d2 plain_name_def)
qed

text \<open>
  C4 as stated fails: \<open>getScriptPath\<close> keeps the directory part of the name it is given,
  so a name with \<open>..\<close> segments resolves outside the scripts directory; and in the
  first variant a path whose base name is \<open>..\<close> resolves to the parent of the scripts
  directory.
\<close>

theorem packaged_script_lookup_counterexample:
  "isPackaged sample_env
   \<and> scripts_dir Dmg sample_env = ''/app/Resources/pyapp/whalescope_scripts''
   \<and> getScriptPath sample_env ''../../evil.py'' = ''/app/Resources/evil.py''
   \<and> scripts_dir Main sample_env = ''/app/Resources/python/whalescope_scripts''
   \<and> realScriptPath sample_env ''..'' = ''/app/Resources/python''"
  by (simp add: scripts_dir_def projectRoot_dmg_def getScriptPath_def realScriptPath_def
        sample_env_def posix_join_def posix_normalize_def normalizeString_def posix_basename_def)

section \<open>The credential store\<close>

text \<open>
  C9. Saving a key set writes exactly its JSON text to the one credential file, replacing
  whatever the file held and touching no other file, and a load after the save returns
  the key set; a load when the file does not exist returns \<open>{success: false, keys: {}}\<close>
  and raises nothing. Both variants agree here. The key set is one that \<open>JSON\<close>
  reads back from the text it writes for it, and the file can be written.
\<close>

theorem credentials_round_trip:
  assumes "json_stringify env keys = Inr text"
      and "json_parse env text = Inr keys"
      and "apiKeysPath env \<notin> unwritable w"
  shows "saveApiKeys_main env w keys
           = (Returned (JObj [(''success'', JBool True)]),
              w\<lparr>files := (files w)(apiKeysPath env \<mapsto> text)\<rparr>)
       \<and> saveApiKeys_dmg env w keys
           = (Returned (JObj [(''success'', JBool True)]),
              w\<lparr>files := (files w)(apiKeysPath env \<mapsto> text)\<rparr>)
       \<and> loadApiKeys_main env (snd (saveApiKeys_main env w keys))
           = (Returned (JObj [(''success'', JBool True), (''keys'', keys)]),
              snd (saveApiKeys_main env w keys))
       \<and> loadApiKeys_dmg env (snd (saveApiKeys_dmg env w keys))
           = (Returned (JObj [(''success'', JBool True), (''keys'', keys)]),
              snd (saveApiKeys_dmg env w keys))
       \<and> (files w0 (apiKeysPath env) = None \<longrightarrow>
            loadApiKeys_main env w0
              = (Returned (JObj [(''success'', JBool False), (''keys'', JObj [])]), w0)
            \<and> loadApiKeys_dmg env w0
              = (Returned (JObj [(''success'', JBool False), (''keys'', JObj [])]), w0))"
  using assms
  by (simp add: saveApiKeys_main_def saveApiKeys_dmg_def loadApiKeys_main_def loadApiKeys_dmg_def
        writeFileSync_def existsSync_def readFileSync_def)

theorem credentials_round_trip_witness:
  "fst (saveApiKeys_main sample_env (sample_world\<lparr>files := [apiKeysPath sample_env \<mapsto> ''{}'']\<rparr>) sample_keys)
     = Returned (JObj [(''success'', JBool True)])
   \<and> files (snd (saveApiKeys_main sample_env
                   (sample_world\<lparr>files := [apiKeysPath sample_env \<mapsto> ''{}'']\<rparr>) sample_keys))
        (apiKeysPath sample_env) = Some sample_keys_text
   \<and> fst (loadApiKeys_dmg sample_env
            (snd (saveApiKeys_dmg sample_env
                    (sample_world\<lparr>files := [apiKeysPath sample_env \<mapsto> ''{}'']\<rparr>) sample_keys)))
     = Returned (JObj [(''success'', JBool True), (''keys'', sample_keys)])
   \<and> fst (loadApiKeys_main sample_env sample_world)
     = Returned (JObj [(''success'', JBool False), (''keys'', JObj [])])"
proof -
  have s: "json_stringify sample_env sample_keys = Inr sample_keys_text"
   and p: "json_parse sample_env sample_keys_text = Inr sample_keys"
    by (simp_all add: sample_env_def)
  have u: "apiKeysPath sample_env
             \<notin> unwritable (sample_world\<lparr>files := [apiKeysPath sample_env \<mapsto> ''{}'']\<rparr>)"
    by (simp add: sample_world_def)
  have e: "files sample_world (apiKeysPath sample_env) = None"
    by (simp add: sample_world_def)
  show ?thesis
    using credentials_round_trip [OF s p u, of sample_world] e by auto
qed

end
